theory Spec2Isabelle
  imports Main "HOL-Library.Sublist" "HOL-Library.AList"
begin

section \<open>Strings of the JavaScript runtime\<close>

text \<open>
  A JavaScript string is a sequence of UTF-16 code units. The model uses \<^typ>\<open>string\<close>:
  one \<^typ>\<open>char\<close> is one code unit, so the model covers the strings whose code units are
  below 256 (Latin-1). On that range the built-ins used by the server are written out
  below exactly as ECMAScript defines them.
\<close>

definition NL :: char where
  "NL = CHR 0x0A"

text \<open>The class \<^verbatim>\<open>\s\<close> of regular expressions, which is also what \<^verbatim>\<open>trim()\<close>
  strips: tab, line feed, vertical tab, form feed, carriage return, space, no-break space.\<close>

definition isSpace :: "char \<Rightarrow> bool" where
  "isSpace c = (c \<in> set [CHR 0x09, CHR 0x0A, CHR 0x0B, CHR 0x0C, CHR 0x0D, CHR 0x20, CHR 0xA0])"

text \<open>Line terminators: where \<^verbatim>\<open>.\<close> stops and where \<^verbatim>\<open>^\<close> and \<^verbatim>\<open>$\<close>
  match under the \<^verbatim>\<open>m\<close> flag.\<close>

definition isLineTerminator :: "char \<Rightarrow> bool" where
  "isLineTerminator c = (c = CHR 0x0A \<or> c = CHR 0x0D)"

text \<open>The class \<^verbatim>\<open>\w\<close>: ASCII letters, digits and the underscore.\<close>

definition isWord :: "char \<Rightarrow> bool" where
  "isWord c = (let n = (of_char c :: nat) in
     (48 \<le> n \<and> n \<le> 57) \<or> (65 \<le> n \<and> n \<le> 90) \<or> n = 95 \<or> (97 \<le> n \<and> n \<le> 122))"

text \<open>\<^verbatim>\<open>String.prototype.toLowerCase\<close> on Latin-1: A-Z and the accented capitals
  U+00C0..U+00DE (without the multiplication sign U+00D7) move up by 32.\<close>

definition toLowerCase_char :: "char \<Rightarrow> char" where
  "toLowerCase_char c = (let n = (of_char c :: nat) in
     if (65 \<le> n \<and> n \<le> 90) \<or> (192 \<le> n \<and> n \<le> 222 \<and> n \<noteq> 215) then char_of (n + 32) else c)"

definition toLowerCase :: "string \<Rightarrow> string" where
  "toLowerCase s = map toLowerCase_char s"

definition trim :: "string \<Rightarrow> string" where
  "trim s = rev (dropWhile isSpace (rev (dropWhile isSpace s)))"

text \<open>\<^verbatim>\<open>s.split(sep)\<close> for a one-character separator: never empty, \<^verbatim>\<open>"".split(sep)\<close>
  is \<^verbatim>\<open>[""]\<close>.\<close>

fun split :: "char \<Rightarrow> string \<Rightarrow> string list" where
  "split sep [] = [[]]"
| "split sep (c # cs) =
     (if c = sep then [] # split sep cs
      else (case split sep cs of [] \<Rightarrow> [[c]] | x # xs \<Rightarrow> (c # x) # xs))"

text \<open>\<^verbatim>\<open>parts.join(sep)\<close>.\<close>

fun join :: "string \<Rightarrow> string list \<Rightarrow> string" where
  "join sep [] = []"
| "join sep [x] = x"
| "join sep (x # y # ys) = x @ sep @ join sep (y # ys)"

text \<open>\<^verbatim>\<open>s.substring(0, n)\<close>.\<close>

definition substring0 :: "nat \<Rightarrow> string \<Rightarrow> string" where
  "substring0 n s = take n s"

subsection \<open>The slug of a title (routes.ts, POST /api/admin/posts)\<close>

text \<open>\<^verbatim>\<open>.replace(/[^\w\s-]/g, '')\<close>: every character outside the class is deleted.\<close>

definition strip_non_slug :: "string \<Rightarrow> string" where
  "strip_non_slug s = filter (\<lambda>c. isWord c \<or> isSpace c \<or> c = CHR ''-'') s"

text \<open>\<^verbatim>\<open>.replace(/\s+/g, '-')\<close>: every maximal run of white space becomes one hyphen.\<close>

function spaces_to_hyphen :: "string \<Rightarrow> string" where
  "spaces_to_hyphen [] = []"
| "spaces_to_hyphen (c # cs) =
     (if isSpace c then CHR ''-'' # spaces_to_hyphen (dropWhile isSpace cs)
      else c # spaces_to_hyphen cs)"
  by pat_completeness auto
termination
  by (relation "measure length") (auto simp: length_dropWhile_le less_Suc_eq_le)

text \<open>\<^verbatim>\<open>.replace(/--+/g, '-')\<close>: every maximal run of two or more hyphens becomes one
  hyphen; a single hyphen is not matched and stays.\<close>

function collapse_hyphens :: "string \<Rightarrow> string" where
  "collapse_hyphens [] = []"
| "collapse_hyphens [c] = [c]"
| "collapse_hyphens (c # d # cs) =
     (if c = CHR ''-'' \<and> d = CHR ''-''
      then CHR ''-'' # collapse_hyphens (dropWhile (\<lambda>x. x = CHR ''-'') cs)
      else c # collapse_hyphens (d # cs))"
  by pat_completeness auto
termination
  by (relation "measure length") (auto simp: less_Suc_eq_le intro: le_SucI length_dropWhile_le)

text \<open>The chain of the route, the final \<^verbatim>\<open>.trim()\<close> included.\<close>

definition slugify :: "string \<Rightarrow> string" where
  "slugify title = trim (collapse_hyphens (spaces_to_hyphen (strip_non_slug (toLowerCase title))))"

text \<open>Replacing every run of characters of a class by one character, said without the
  matcher: a character of the class is dropped when the next one is of the class too, and
  the last one of a run is replaced.\<close>

fun squeeze :: "(char \<Rightarrow> bool) \<Rightarrow> char \<Rightarrow> string \<Rightarrow> string" where
  "squeeze P r [] = []"
| "squeeze P r [c] = (if P c then [r] else [c])"
| "squeeze P r (c # d # cs) =
     (if P c then (if P d then squeeze P r (d # cs) else r # squeeze P r (d # cs))
      else c # squeeze P r (d # cs))"

text \<open>The derivation as the specification words it: lowercase, the characters that are
  neither word characters nor white space nor hyphens removed, every run of white space
  replaced by one hyphen, every run of hyphens collapsed to one.\<close>

definition spec_slug :: "string \<Rightarrow> string" where
  "spec_slug title =
     squeeze (\<lambda>c. c = CHR ''-'') (CHR ''-'')
       (squeeze isSpace (CHR ''-'')
         (filter (\<lambda>c. isWord c \<or> isSpace c \<or> c = CHR ''-'') (toLowerCase title)))"

subsection \<open>The e-mail test (routes.ts, POST /api/contact)\<close>

text \<open>\<^verbatim>\<open>/^[^\s@]+@[^\s@]+\.[^\s@]+$/.test(email)\<close>: the string is \<open>a @ b . c\<close> with
  \<open>a\<close>, \<open>b\<close>, \<open>c\<close> non-empty and free of white space and of \<^verbatim>\<open>@\<close>. The at sign is at
  index \<open>i\<close> and the dot at index \<open>j\<close>.\<close>

definition emailPart :: "string \<Rightarrow> bool" where
  "emailPart s = (s \<noteq> [] \<and> list_all (\<lambda>c. \<not> isSpace c \<and> c \<noteq> CHR ''@'') s)"

definition emailRegex_test :: "string \<Rightarrow> bool" where
  "emailRegex_test s =
     list_ex (\<lambda>i. list_ex (\<lambda>j.
         i < j \<and> s ! i = CHR ''@'' \<and> s ! j = CHR ''.''
         \<and> emailPart (take i s) \<and> emailPart (take (j - Suc i) (drop (Suc i) s))
         \<and> emailPart (drop (Suc j) s))
       [0 ..< length s]) [0 ..< length s]"

subsection \<open>Searching\<close>

text \<open>\<^verbatim>\<open>xs.findIndex((x, index) => ...)\<close>, which answers -1 when nothing is found.\<close>

fun findIndex_from :: "('a \<Rightarrow> nat \<Rightarrow> bool) \<Rightarrow> nat \<Rightarrow> 'a list \<Rightarrow> int" where
  "findIndex_from P i [] = - 1"
| "findIndex_from P i (x # xs) = (if P x i then int i else findIndex_from P (Suc i) xs)"

definition findIndex :: "('a \<Rightarrow> nat \<Rightarrow> bool) \<Rightarrow> 'a list \<Rightarrow> int" where
  "findIndex P xs = findIndex_from P 0 xs"

text \<open>The first occurrence of a pattern in a string: what is before it and what is after.\<close>

fun split_first :: "string \<Rightarrow> string \<Rightarrow> (string \<times> string) option" where
  "split_first pat [] = (if pat = [] then Some ([], []) else None)"
| "split_first pat (c # cs) =
     (if prefix pat (c # cs) then Some ([], drop (length pat) (c # cs))
      else map_option (\<lambda>(a, b). (c # a, b)) (split_first pat cs))"


subsection \<open>Numbers from the URL\<close>

text \<open>What \<^verbatim>\<open>parseInt\<close> answers: \<^verbatim>\<open>NaN\<close> or an integer. The rounding of integers
  beyond \<open>2\<^sup>5\<^sup>3\<close> to the next floating-point number is not modelled; such a number is
  far outside the ids of either storage before and after rounding.\<close>

datatype number = NaN | Num int

text \<open>The value of a character as a digit of the radix, if it is one.\<close>

definition radix_digit :: "nat \<Rightarrow> char \<Rightarrow> nat option" where
  "radix_digit R c = (let n = (of_char c :: nat);
        d = (if 48 \<le> n \<and> n \<le> 57 then n - 48
             else if 97 \<le> n \<and> n \<le> 122 then n - 87
             else if 65 \<le> n \<and> n \<le> 90 then n - 55
             else R)
      in if d < R then Some d else None)"

definition digits_value :: "nat \<Rightarrow> string \<Rightarrow> int" where
  "digits_value R Z =
     foldl (\<lambda>acc c. acc * int R + (case radix_digit R c of None \<Rightarrow> 0 | Some d \<Rightarrow> int d)) 0 Z"

text \<open>\<^verbatim>\<open>parseInt(string)\<close> without a radix: leading white space is skipped, a sign is
  read, \<^verbatim>\<open>0x\<close> or \<^verbatim>\<open>0X\<close> switches to radix 16, and the longest run of digits is the
  number; what follows is ignored, and no digit at all gives \<^verbatim>\<open>NaN\<close>.\<close>

definition parseInt :: "string \<Rightarrow> number" where
  "parseInt string =
     (let S = dropWhile isSpace string;
          sign = (if prefix ''-'' S then - 1 else 1 :: int);
          S1 = (if prefix ''+'' S \<or> prefix ''-'' S then drop 1 S else S);
          R = (if prefix ''0x'' S1 \<or> prefix ''0X'' S1 then 16 else 10);
          S2 = (if prefix ''0x'' S1 \<or> prefix ''0X'' S1 then drop 2 S1 else S1);
          Z = takeWhile (\<lambda>c. radix_digit R c \<noteq> None) S2
      in if Z = [] then NaN else Num (sign * digits_value R Z))"

section \<open>Data model\<close>

text \<open>
  Modelled from the spec: the table declarations and the types \<^verbatim>\<open>Post\<close>,
  \<^verbatim>\<open>InsertPost\<close>, \<^verbatim>\<open>Contact\<close>, \<^verbatim>\<open>InsertContact\<close> of the shared schema module are
  not among the sources. The fields are those of the specification's data model and of the
  object literals in storage.ts; a field that storage.ts reads with \<^verbatim>\<open>|| null\<close>,
  \<^verbatim>\<open>|| 0\<close> or \<^verbatim>\<open>?.\<close> is nullable. Dates are given as numbers.
\<close>

type_synonym timestamp = nat

record post =
  post_id :: int
  post_title :: string
  post_slug :: string
  post_content :: string
  post_excerpt :: "string option"
  post_readTime :: "string option"
  post_category :: "string option"
  post_tags :: "string list option"
  post_status :: string
  post_viewCount :: "int option"
  post_createdAt :: timestamp
  post_updatedAt :: timestamp

record insert_post =
  ins_title :: string
  ins_slug :: string
  ins_content :: string
  ins_excerpt :: "string option"
  ins_readTime :: "string option"
  ins_category :: "string option"
  ins_tags :: "string list option"
  ins_status :: "string option"

record contact =
  contact_id :: int
  contact_name :: string
  contact_email :: string
  contact_subject :: string
  contact_message :: string
  contact_status :: string
  contact_createdAt :: timestamp

record insert_contact =
  ic_name :: string
  ic_email :: string
  ic_subject :: string
  ic_message :: string

text \<open>\<^verbatim>\<open>v || null\<close> on a nullable string: the empty string is falsy too.\<close>

definition or_null :: "string option \<Rightarrow> string option" where
  "or_null v = (case v of None \<Rightarrow> None | Some s \<Rightarrow> if s = [] then None else Some s)"

text \<open>\<^verbatim>\<open>post.viewCount || 0\<close>.\<close>

definition or_zero :: "int option \<Rightarrow> int" where
  "or_zero v = (case v of None \<Rightarrow> 0 | Some n \<Rightarrow> n)"

section \<open>The markdown mirror\<close>

text \<open>
  The posts directory is a store from file name to file content; the file of a post is
  \<^verbatim>\<open>${slug}.md\<close>. Writing always succeeds in the model; removing a file that is not
  there changes nothing, as the \<^verbatim>\<open>catch\<close> in \<^verbatim>\<open>deletePostFile\<close> has it.
\<close>

type_synonym files = "string \<rightharpoonup> string"

text \<open>A nullable string inside a template literal.\<close>

definition interpolate :: "string option \<Rightarrow> string" where
  "interpolate v = (case v of None \<Rightarrow> ''null'' | Some s \<Rightarrow> s)"

definition frontmatter_text :: "post \<Rightarrow> string" where
  "frontmatter_text p =
     ''---'' @ [NL] @
     ''title: '' @ post_title p @ [NL] @
     ''excerpt: '' @ interpolate (post_excerpt p) @ [NL] @
     ''readTime: '' @ interpolate (post_readTime p) @ [NL] @
     ''category: '' @ interpolate (post_category p) @ [NL] @
     ''tags: '' @ (case post_tags p of None \<Rightarrow> [] | Some ts \<Rightarrow> join '', '' ts) @ [NL] @
     ''status: '' @ post_status p @ [NL] @
     ''---'' @ [NL] @ [NL] @
     post_content p"

definition savePostToFile :: "files \<Rightarrow> post \<Rightarrow> files" where
  "savePostToFile fs p = fs(post_slug p @ ''.md'' \<mapsto> frontmatter_text p)"

definition deletePostFile :: "files \<Rightarrow> string \<Rightarrow> files" where
  "deletePostFile fs slug = fs(slug @ ''.md'' := None)"

section \<open>The frontmatter parsers\<close>

record parsed_file =
  pf_title :: string
  pf_excerpt :: string
  pf_readTime :: string
  pf_category :: string
  pf_tags :: "string list"
  pf_status :: string
  pf_markdown :: string

subsection \<open>\<^verbatim>\<open>MemStorage.parseMarkdownFile\<close>\<close>

text \<open>The initial values of the local variables.\<close>

definition mem_defaults :: "string \<Rightarrow> parsed_file" where
  "mem_defaults content =
     \<lparr>pf_title = ''Untitled'', pf_excerpt = [], pf_readTime = ''5 min read'',
      pf_category = ''General'', pf_tags = [], pf_status = ''published'',
      pf_markdown = content\<rparr>"

text \<open>The callback of \<^verbatim>\<open>frontmatter.forEach\<close>: one header line.\<close>

definition assign_line :: "parsed_file \<Rightarrow> string \<Rightarrow> parsed_file" where
  "assign_line r line =
     (case split (CHR '':'') line of
        [] \<Rightarrow> r
      | key # valueParts \<Rightarrow>
          let v = trim (join '':'' valueParts); k = trim key in
          if k = ''title'' then r\<lparr>pf_title := v\<rparr>
          else if k = ''excerpt'' then r\<lparr>pf_excerpt := v\<rparr>
          else if k = ''readTime'' then r\<lparr>pf_readTime := v\<rparr>
          else if k = ''category'' then r\<lparr>pf_category := v\<rparr>
          else if k = ''tags'' then
            r\<lparr>pf_tags := filter (\<lambda>tag. length tag > 0) (map trim (split (CHR '','') v))\<rparr>
          else if k = ''status'' then r\<lparr>pf_status := v\<rparr>
          else r)"

text \<open>The excerpt made from the body when none was given.\<close>

definition generated_excerpt :: "string \<Rightarrow> string" where
  "generated_excerpt markdown =
     (case find (\<lambda>line. length (trim line) > 0) (split NL markdown) of
        None \<Rightarrow> []
      | Some firstParagraph \<Rightarrow> substring0 150 firstParagraph @ ''...'')"

text \<open>The first half of the function, up to the end of \<^verbatim>\<open>if (lines[0] === '---')\<close>:
  the values of the local variables there.\<close>

definition mem_parse_header :: "string \<Rightarrow> parsed_file" where
  "mem_parse_header content =
     (let lines = split NL content;
          r0 = mem_defaults content
      in case lines of
           [] \<Rightarrow> r0
         | line0 # _ \<Rightarrow>
             if line0 = ''---'' then
               let endIndex = findIndex (\<lambda>line index. index > 0 \<and> line = ''---'') lines in
               if endIndex > 0 then
                 let frontmatter = take (nat endIndex - 1) (drop 1 lines);
                     markdown = join [NL] (drop (nat endIndex + 1) lines)
                 in foldl assign_line (r0\<lparr>pf_markdown := markdown\<rparr>) frontmatter
               else r0
             else r0)"

text \<open>The second half: \<^verbatim>\<open>if (!excerpt)\<close>.\<close>

definition mem_parseMarkdownFile :: "string \<Rightarrow> parsed_file" where
  "mem_parseMarkdownFile content =
     (let r = mem_parse_header content
      in if pf_excerpt r = [] then r\<lparr>pf_excerpt := generated_excerpt (pf_markdown r)\<rparr>
         else r)"

subsection \<open>\<^verbatim>\<open>DatabaseStorage.parseMarkdownFile\<close>\<close>

text \<open>\<^verbatim>\<open>content.match(/^---\n([\s\S]*?)\n---\n([\s\S]*)$/)\<close>: the two groups. The first
  group is lazy, so it ends at the first \<^verbatim>\<open>\n---\n\<close> after the opening line.\<close>

definition frontmatterRegex_match :: "string \<Rightarrow> (string \<times> string) option" where
  "frontmatterRegex_match content =
     (if prefix (''---'' @ [NL]) content
      then split_first ([NL] @ ''---'' @ [NL]) (drop 4 content)
      else None)"

text \<open>\<^verbatim>\<open>frontmatter.match(new RegExp(`^${key}:\\s*(.*)$`, 'm'))\<close>, group 1: \<open>pat\<close> is the key
  with its colon and \<open>bol\<close> says whether the position is the beginning of a line. The
  greedy \<^verbatim>\<open>\s*\<close> also runs over line ends; \<^verbatim>\<open>.*\<close> stops at the next one.\<close>

fun key_match :: "string \<Rightarrow> bool \<Rightarrow> string \<Rightarrow> string option" where
  "key_match pat bol [] = None"
| "key_match pat bol (c # cs) =
     (if bol \<and> prefix pat (c # cs)
      then Some (takeWhile (\<lambda>x. \<not> isLineTerminator x)
                  (dropWhile isSpace (drop (length pat) (c # cs))))
      else key_match pat (isLineTerminator c) cs)"

definition parseValue :: "string \<Rightarrow> string \<Rightarrow> string \<Rightarrow> string" where
  "parseValue frontmatter key defaultValue =
     (case key_match (key @ '':'') True frontmatter of
        Some m \<Rightarrow> trim m
      | None \<Rightarrow> defaultValue)"

definition db_parseMarkdownFile :: "string \<Rightarrow> parsed_file" where
  "db_parseMarkdownFile content =
     (case frontmatterRegex_match content of
        None \<Rightarrow>
          \<lparr>pf_title = ''Untitled'', pf_excerpt = ''No excerpt available'',
           pf_readTime = ''5 min read'', pf_category = ''General'', pf_tags = [],
           pf_status = ''published'', pf_markdown = content\<rparr>
      | Some (frontmatter, markdown) \<Rightarrow>
          let tagsStr = parseValue frontmatter ''tags'' [];
              tags = (if tagsStr \<noteq> [] then map trim (split (CHR '','') tagsStr) else [])
          in \<lparr>pf_title = parseValue frontmatter ''title'' ''Untitled'',
              pf_excerpt = parseValue frontmatter ''excerpt'' ''No excerpt available'',
              pf_readTime = parseValue frontmatter ''readTime'' ''5 min read'',
              pf_category = parseValue frontmatter ''category'' ''General'',
              pf_tags = tags,
              pf_status = parseValue frontmatter ''status'' ''published'',
              pf_markdown = markdown\<rparr>)"

section \<open>\<^verbatim>\<open>MemStorage\<close>\<close>

text \<open>
  The posts of \<^verbatim>\<open>MemStorage\<close> are objects that the map \<^verbatim>\<open>posts\<close> refers to, and
  \<^verbatim>\<open>getPostBySlug\<close> hands such a reference to its caller, while
  \<^verbatim>\<open>incrementViewCount\<close> assigns to a field of the object. So the objects live in an
  explicit store, \<open>post_objs\<close>, from addresses to posts, with \<open>next_addr\<close> the next free
  address, and the map holds addresses. A JavaScript \<^verbatim>\<open>Map\<close> keeps its entries in
  insertion order: it is an association list with \<^const>\<open>AList.update\<close> for \<^verbatim>\<open>set\<close>.
  No reference to a contact object leaves the storage before the object changes, so the
  contacts are kept in their map directly.
\<close>

type_synonym addr = nat

record mem_storage =
  post_objs :: "addr \<Rightarrow> post"
  next_addr :: addr
  posts :: "(int \<times> addr) list"
  contacts :: "(int \<times> contact) list"
  currentPostId :: int
  currentContactId :: int
  postsDir :: files

text \<open>\<^verbatim>\<open>Array.from(this.posts.values()).find(post => post.slug === slug)\<close>.\<close>

definition mem_getPostBySlug :: "mem_storage \<Rightarrow> string \<Rightarrow> addr option" where
  "mem_getPostBySlug st slug =
     find (\<lambda>a. post_slug (post_objs st a) = slug) (map snd (posts st))"

definition mem_createPost :: "mem_storage \<Rightarrow> timestamp \<Rightarrow> insert_post \<Rightarrow> mem_storage \<times> addr" where
  "mem_createPost st now insertPost =
     (let ident = currentPostId st;
          p = \<lparr>post_id = ident,
               post_title = ins_title insertPost,
               post_slug = ins_slug insertPost,
               post_content = ins_content insertPost,
               post_excerpt = or_null (ins_excerpt insertPost),
               post_readTime = or_null (ins_readTime insertPost),
               post_category = or_null (ins_category insertPost),
               post_tags = ins_tags insertPost,
               post_status = (case or_null (ins_status insertPost) of
                                None \<Rightarrow> ''published'' | Some s \<Rightarrow> s),
               post_viewCount = Some 0,
               post_createdAt = now,
               post_updatedAt = now\<rparr>;
          a = next_addr st
      in (st\<lparr>post_objs := (post_objs st)(a := p),
             next_addr := Suc a,
             posts := AList.update ident a (posts st),
             currentPostId := ident + 1,
             postsDir := savePostToFile (postsDir st) p\<rparr>, a))"

definition mem_deletePost :: "mem_storage \<Rightarrow> int \<Rightarrow> mem_storage \<times> bool" where
  "mem_deletePost st ident =
     (case map_of (posts st) ident of
        None \<Rightarrow> (st, False)
      | Some a \<Rightarrow>
          (st\<lparr>posts := AList.delete ident (posts st),
              postsDir := deletePostFile (postsDir st) (post_slug (post_objs st a))\<rparr>, True))"

definition mem_incrementViewCount :: "mem_storage \<Rightarrow> string \<Rightarrow> mem_storage" where
  "mem_incrementViewCount st slug =
     (case find (\<lambda>a. post_slug (post_objs st a) = slug) (map snd (posts st)) of
        None \<Rightarrow> st
      | Some a \<Rightarrow>
          let p = (post_objs st a)\<lparr>post_viewCount := Some (or_zero (post_viewCount (post_objs st a)) + 1)\<rparr>
          in st\<lparr>post_objs := (post_objs st)(a := p),
                postsDir := savePostToFile (postsDir st) p\<rparr>)"

definition mem_createContact :: "mem_storage \<Rightarrow> timestamp \<Rightarrow> insert_contact \<Rightarrow> mem_storage \<times> contact" where
  "mem_createContact st now insertContact =
     (let ident = currentContactId st;
          c = \<lparr>contact_id = ident,
               contact_name = ic_name insertContact,
               contact_email = ic_email insertContact,
               contact_subject = ic_subject insertContact,
               contact_message = ic_message insertContact,
               contact_status = ''unread'',
               contact_createdAt = now\<rparr>
      in (st\<lparr>contacts := AList.update ident c (contacts st),
             currentContactId := ident + 1\<rparr>, c))"

definition mem_markContactAsRead :: "mem_storage \<Rightarrow> int \<Rightarrow> mem_storage" where
  "mem_markContactAsRead st ident =
     (case map_of (contacts st) ident of
        None \<Rightarrow> st
      | Some c \<Rightarrow> st\<lparr>contacts := AList.update ident (c\<lparr>contact_status := ''read''\<rparr>) (contacts st)\<rparr>)"

text \<open>The two methods above take a \<^verbatim>\<open>number\<close>. The keys of the maps are the integers
  of the counters, so \<^verbatim>\<open>get(NaN)\<close> finds nothing: \<^verbatim>\<open>deletePost(NaN)\<close> answers
  \<^verbatim>\<open>false\<close> and \<^verbatim>\<open>markContactAsRead(NaN)\<close> does nothing. \<^verbatim>\<open>MemStorage\<close> never
  raises.\<close>

definition mem_deletePost_number :: "mem_storage \<Rightarrow> number \<Rightarrow> mem_storage \<times> bool" where
  "mem_deletePost_number st n = (case n of NaN \<Rightarrow> (st, False) | Num i \<Rightarrow> mem_deletePost st i)"

definition mem_markContactAsRead_number :: "mem_storage \<Rightarrow> number \<Rightarrow> mem_storage" where
  "mem_markContactAsRead_number st n =
     (case n of NaN \<Rightarrow> st | Num i \<Rightarrow> mem_markContactAsRead st i)"


section \<open>\<^verbatim>\<open>DatabaseStorage\<close>\<close>

text \<open>
  Modelled from the spec: the database is outside the sources. A table is the list of its
  rows, \<^verbatim>\<open>select ... where\<close> filters it, \<^verbatim>\<open>update ... where\<close> rewrites the rows that
  match, \<^verbatim>\<open>delete ... where\<close> drops them, and \<^verbatim>\<open>insert ... returning\<close> appends a row
  whose id is the next value of the table's sequence. The columns that an insert does not
  give take the defaults that \<^verbatim>\<open>MemStorage\<close> writes: status \<^verbatim>\<open>published\<close>, view count 0,
  contact status \<^verbatim>\<open>unread\<close>, the dates of the moment. In SQL, \<^verbatim>\<open>NULL + 1\<close> is
  \<^verbatim>\<open>NULL\<close>. A query answers copies of the rows. The id columns are 32-bit integers
  (\<^verbatim>\<open>serial\<close>): a query whose id parameter is \<^verbatim>\<open>NaN\<close> or outside that range is
  refused by the database, the promise is rejected and nothing is changed. Every other
  query succeeds.
\<close>

datatype error = DatabaseError

definition db_id_param :: "number \<Rightarrow> error + int" where
  "db_id_param n =
     (case n of
        NaN \<Rightarrow> Inl DatabaseError
      | Num i \<Rightarrow> if - 2147483648 \<le> i \<and> i \<le> 2147483647 then Inr i else Inl DatabaseError)"

record db_storage =
  posts_table :: "post list"
  contacts_table :: "contact list"
  posts_id_seq :: int
  contacts_id_seq :: int
  db_postsDir :: files

text \<open>\<^verbatim>\<open>const [post] = await db.select()...; return post || undefined\<close>.\<close>

definition first_row :: "'a list \<Rightarrow> 'a option" where
  "first_row rows = (case rows of [] \<Rightarrow> None | r # _ \<Rightarrow> Some r)"

definition db_getPostBySlug :: "db_storage \<Rightarrow> string \<Rightarrow> post option" where
  "db_getPostBySlug st slug = first_row (filter (\<lambda>p. post_slug p = slug) (posts_table st))"

definition db_createPost :: "db_storage \<Rightarrow> timestamp \<Rightarrow> insert_post \<Rightarrow> db_storage \<times> post" where
  "db_createPost st now insertPost =
     (let p = \<lparr>post_id = posts_id_seq st,
               post_title = ins_title insertPost,
               post_slug = ins_slug insertPost,
               post_content = ins_content insertPost,
               post_excerpt = ins_excerpt insertPost,
               post_readTime = ins_readTime insertPost,
               post_category = ins_category insertPost,
               post_tags = ins_tags insertPost,
               post_status = (case ins_status insertPost of
                                None \<Rightarrow> ''published'' | Some s \<Rightarrow> s),
               post_viewCount = Some 0,
               post_createdAt = now,
               post_updatedAt = now\<rparr>
      in (st\<lparr>posts_table := posts_table st @ [p],
             posts_id_seq := posts_id_seq st + 1,
             db_postsDir := savePostToFile (db_postsDir st) p\<rparr>, p))"

definition db_deletePost :: "db_storage \<Rightarrow> int \<Rightarrow> db_storage \<times> bool" where
  "db_deletePost st ident =
     (case take 1 (filter (\<lambda>p. post_id p = ident) (posts_table st)) of
        [] \<Rightarrow> (st, False)
      | p # _ \<Rightarrow>
          (st\<lparr>db_postsDir := deletePostFile (db_postsDir st) (post_slug p),
              posts_table := filter (\<lambda>q. post_id q \<noteq> ident) (posts_table st)\<rparr>, True))"

definition db_incrementViewCount :: "db_storage \<Rightarrow> string \<Rightarrow> db_storage" where
  "db_incrementViewCount st slug =
     st\<lparr>posts_table :=
          map (\<lambda>p. if post_slug p = slug
                   then p\<lparr>post_viewCount := map_option (\<lambda>n. n + 1) (post_viewCount p)\<rparr>
                   else p)
              (posts_table st)\<rparr>"

definition db_createContact :: "db_storage \<Rightarrow> timestamp \<Rightarrow> insert_contact \<Rightarrow> db_storage \<times> contact" where
  "db_createContact st now insertContact =
     (let c = \<lparr>contact_id = contacts_id_seq st,
               contact_name = ic_name insertContact,
               contact_email = ic_email insertContact,
               contact_subject = ic_subject insertContact,
               contact_message = ic_message insertContact,
               contact_status = ''unread'',
               contact_createdAt = now\<rparr>
      in (st\<lparr>contacts_table := contacts_table st @ [c],
             contacts_id_seq := contacts_id_seq st + 1\<rparr>, c))"

definition db_markContactAsRead :: "db_storage \<Rightarrow> int \<Rightarrow> db_storage" where
  "db_markContactAsRead st ident =
     st\<lparr>contacts_table :=
          map (\<lambda>c. if contact_id c = ident then c\<lparr>contact_status := ''read''\<rparr> else c)
              (contacts_table st)\<rparr>"

text \<open>\<^verbatim>\<open>deletePost\<close> and \<^verbatim>\<open>markContactAsRead\<close> on the \<^verbatim>\<open>number\<close> they are given:
  their first query raises on an id that the database refuses; on an integer of the column
  they are the two definitions above.\<close>

definition db_deletePost_number :: "db_storage \<Rightarrow> number \<Rightarrow> error + db_storage \<times> bool" where
  "db_deletePost_number st n =
     (case db_id_param n of Inl e \<Rightarrow> Inl e | Inr i \<Rightarrow> Inr (db_deletePost st i))"

definition db_markContactAsRead_number :: "db_storage \<Rightarrow> number \<Rightarrow> error + db_storage" where
  "db_markContactAsRead_number st n =
     (case db_id_param n of Inl e \<Rightarrow> Inl e | Inr i \<Rightarrow> Inr (db_markContactAsRead st i))"


section \<open>The interface \<^verbatim>\<open>IStorage\<close> and its two implementations\<close>

text \<open>
  The routes call the storage through the interface. \<open>'s\<close> is the state of the
  implementation and \<open>'r\<close> what a returned \<^verbatim>\<open>Post\<close> is: an address for
  \<^verbatim>\<open>MemStorage\<close>, a copy of the row for \<^verbatim>\<open>DatabaseStorage\<close>. \<open>read_post\<close> is what
  \<^verbatim>\<open>res.json(post)\<close> finds behind it at the moment of the call. The two methods that
  take an id from the URL answer an error when their promise is rejected.
\<close>

record ('s, 'r) istorage =
  getPostBySlug :: "'s \<Rightarrow> string \<Rightarrow> 'r option"
  createPost :: "'s \<Rightarrow> timestamp \<Rightarrow> insert_post \<Rightarrow> 's \<times> 'r"
  deletePost :: "'s \<Rightarrow> number \<Rightarrow> error + 's \<times> bool"
  incrementViewCount :: "'s \<Rightarrow> string \<Rightarrow> 's"
  createContact :: "'s \<Rightarrow> timestamp \<Rightarrow> insert_contact \<Rightarrow> 's \<times> contact"
  markContactAsRead :: "'s \<Rightarrow> number \<Rightarrow> error + 's"
  read_post :: "'s \<Rightarrow> 'r \<Rightarrow> post"

definition MemStorage :: "(mem_storage, addr) istorage" where
  "MemStorage =
     \<lparr>getPostBySlug = mem_getPostBySlug, createPost = mem_createPost,
      deletePost = (\<lambda>st n. Inr (mem_deletePost_number st n)),
      incrementViewCount = mem_incrementViewCount,
      createContact = mem_createContact,
      markContactAsRead = (\<lambda>st n. Inr (mem_markContactAsRead_number st n)),
      read_post = post_objs\<rparr>"

definition DatabaseStorage :: "(db_storage, post) istorage" where
  "DatabaseStorage =
     \<lparr>getPostBySlug = db_getPostBySlug, createPost = db_createPost,
      deletePost = db_deletePost_number, incrementViewCount = db_incrementViewCount,
      createContact = db_createContact, markContactAsRead = db_markContactAsRead_number,
      read_post = (\<lambda>st p. p)\<rparr>"

section \<open>The routes\<close>

text \<open>
  A route takes the state of the storage and the request and gives the new state and the
  response: the HTTP status and the JSON body. The \<^verbatim>\<open>catch\<close> branch that answers 500
  is there where the storage call of the route can raise: in the two routes that hand an id
  of the URL to the storage.
\<close>

datatype json =
    Json_post post
  | Json_error string
  | Json_error_details string "string list"
  | Json_success
  | Json_sent string int

type_synonym response = "nat \<times> json"

text \<open>\<^verbatim>\<open>app.get("/api/posts/:slug")\<close>.\<close>

definition get_api_posts_slug :: "('s, 'r) istorage \<Rightarrow> 's \<Rightarrow> string \<Rightarrow> 's \<times> response" where
  "get_api_posts_slug storage st slug =
     (case getPostBySlug storage st slug of
        None \<Rightarrow> (st, (404, Json_error ''Post not found''))
      | Some p \<Rightarrow>
          let st' = incrementViewCount storage st slug
          in (st', (200, Json_post (read_post storage st' p))))"

text \<open>\<^verbatim>\<open>app.post("/api/admin/posts")\<close>. \<open>insertPostSchema\<close> is the parser of the request
  body, from the schema module: it answers the issues of a \<^verbatim>\<open>ZodError\<close> or the post data.\<close>

definition post_api_admin_posts ::
  "('b \<Rightarrow> string list + insert_post) \<Rightarrow> ('s, 'r) istorage \<Rightarrow> 's \<Rightarrow> timestamp \<Rightarrow> 'b \<Rightarrow> 's \<times> response" where
  "post_api_admin_posts insertPostSchema storage st now req_body =
     (case insertPostSchema req_body of
        Inl errors \<Rightarrow> (st, (400, Json_error_details ''Invalid post data'' errors))
      | Inr parsed \<Rightarrow>
          let postData = (if ins_slug parsed = []
                          then parsed\<lparr>ins_slug := slugify (ins_title parsed)\<rparr>
                          else parsed)
          in (case getPostBySlug storage st (ins_slug postData) of
                Some existingPost \<Rightarrow>
                  (st, (400, Json_error ''Post with this slug already exists''))
              | None \<Rightarrow>
                  let (st', p) = createPost storage st now postData
                  in (st', (200, Json_post (read_post storage st' p)))))"

text \<open>\<^verbatim>\<open>app.delete("/api/admin/posts/:id")\<close>: \<open>ident\<close> is the \<^verbatim>\<open>:id\<close> of the URL.\<close>

definition delete_api_admin_posts_id :: "('s, 'r) istorage \<Rightarrow> 's \<Rightarrow> string \<Rightarrow> 's \<times> response" where
  "delete_api_admin_posts_id storage st ident =
     (case deletePost storage st (parseInt ident) of
        Inl error \<Rightarrow> (st, (500, Json_error ''Failed to delete post''))
      | Inr (st', success) \<Rightarrow>
          if \<not> success then (st', (404, Json_error ''Post not found''))
          else (st', (200, Json_success)))"

text \<open>\<^verbatim>\<open>app.post("/api/contact")\<close>. The four fields of the body are strings or absent;
  an absent field and an empty string are both falsy.\<close>

record contact_form =
  cf_name :: "string option"
  cf_email :: "string option"
  cf_subject :: "string option"
  cf_message :: "string option"

definition post_api_contact :: "('s, 'r) istorage \<Rightarrow> 's \<Rightarrow> timestamp \<Rightarrow> contact_form \<Rightarrow> 's \<times> response" where
  "post_api_contact storage st now req_body =
     (case (cf_name req_body, cf_email req_body, cf_subject req_body, cf_message req_body) of
        (Some name, Some email, Some subject, Some message) \<Rightarrow>
          if name = [] \<or> email = [] \<or> subject = [] \<or> message = []
          then (st, (400, Json_error ''All fields are required''))
          else if \<not> emailRegex_test email
          then (st, (400, Json_error ''Invalid email format''))
          else
            let contactData =
                  \<lparr>ic_name = trim name,
                   ic_email = toLowerCase (trim email),
                   ic_subject = trim subject,
                   ic_message = trim message\<rparr>;
                (st', c) = createContact storage st now contactData
            in (st', (200, Json_sent ''Message sent successfully'' (contact_id c)))
      | _ \<Rightarrow> (st, (400, Json_error ''All fields are required'')))"

text \<open>\<^verbatim>\<open>app.patch("/api/admin/contacts/:id/read")\<close>: \<open>ident\<close> is the \<^verbatim>\<open>:id\<close> of the
  URL.\<close>

definition patch_api_admin_contacts_id_read :: "('s, 'r) istorage \<Rightarrow> 's \<Rightarrow> string \<Rightarrow> 's \<times> response" where
  "patch_api_admin_contacts_id_read storage st ident =
     (case markContactAsRead storage st (parseInt ident) of
        Inl error \<Rightarrow> (st, (500, Json_error ''Failed to mark contact as read''))
      | Inr st' \<Rightarrow> (st', (200, Json_success)))"

section \<open>Sample states\<close>

text \<open>A post, a contact and a state of each storage that holds them, to run the
  operations on.\<close>

definition sample_post :: post where
  "sample_post =
     \<lparr>post_id = 1, post_title = ''Hello'', post_slug = ''hello'',
      post_content = ''Hello world'', post_excerpt = None, post_readTime = None,
      post_category = None, post_tags = None, post_status = ''published'',
      post_viewCount = Some 0, post_createdAt = 0, post_updatedAt = 0\<rparr>"

definition sample_contact :: contact where
  "sample_contact =
     \<lparr>contact_id = 1, contact_name = ''Ann'', contact_email = ''ann@example.org'',
      contact_subject = ''Hi'', contact_message = ''Hello there'',
      contact_status = ''unread'', contact_createdAt = 0\<rparr>"

definition sample_mem :: mem_storage where
  "sample_mem =
     \<lparr>post_objs = (\<lambda>a. sample_post), next_addr = 1, posts = [(1, 0)],
      contacts = [(1, sample_contact)], currentPostId = 2, currentContactId = 2,
      postsDir = [''hello.md'' \<mapsto> frontmatter_text sample_post]\<rparr>"

definition sample_db :: db_storage where
  "sample_db =
     \<lparr>posts_table = [sample_post], contacts_table = [sample_contact],
      posts_id_seq = 2, contacts_id_seq = 2,
      db_postsDir = [''hello.md'' \<mapsto> frontmatter_text sample_post]\<rparr>"


definition sample_insert :: insert_post where
  "sample_insert =
     \<lparr>ins_title = ''Hello'', ins_slug = [], ins_content = ''Again'', ins_excerpt = None,
      ins_readTime = None, ins_category = None, ins_tags = None, ins_status = None\<rparr>"

definition sample_form :: contact_form where
  "sample_form =
     \<lparr>cf_name = Some ''Bob'', cf_email = Some ''bob@localhost'',
      cf_subject = Some ''Hi'', cf_message = Some ''Hello''\<rparr>"

section \<open>What the claims speak of\<close>

text \<open>The slugs of the posts in the store, one entry per post.\<close>

definition mem_slugs :: "mem_storage \<Rightarrow> string list" where
  "mem_slugs st = map (\<lambda>a. post_slug (post_objs st a)) (map snd (posts st))"

definition db_slugs :: "db_storage \<Rightarrow> string list" where
  "db_slugs st = map post_slug (posts_table st)"

text \<open>The slug that POST /api/admin/posts looks up and stores: the one of the body, or the
  one derived from the title when the body has none.\<close>

definition effective_slug :: "insert_post \<Rightarrow> string" where
  "effective_slug pd = (if ins_slug pd = [] then slugify (ins_title pd) else ins_slug pd)"

text \<open>The counters of \<^verbatim>\<open>MemStorage\<close> are ahead of what is in use: every id and every
  address in the map is below the next id and the next address. The constructor's empty map
  is so, and the operations keep it so.\<close>

definition mem_fresh :: "mem_storage \<Rightarrow> bool" where
  "mem_fresh st = list_all (\<lambda>(k, a). k < currentPostId st \<and> a < next_addr st) (posts st)"

text \<open>Every row of the posts table has a view count, as every row that the insert writes
  has.\<close>

definition db_counted :: "db_storage \<Rightarrow> bool" where
  "db_counted st = list_all (\<lambda>p. post_viewCount p \<noteq> None) (posts_table st)"

text \<open>The state after \<open>k\<close> requests GET /api/posts/:slug for the same slug.\<close>

definition fetches :: "('s, 'r) istorage \<Rightarrow> nat \<Rightarrow> 's \<Rightarrow> string \<Rightarrow> 's" where
  "fetches storage k st slug = ((\<lambda>s. fst (get_api_posts_slug storage s slug)) ^^ k) st"

section \<open>Files by their lines\<close>

text \<open>A file with frontmatter, given by its lines: the delimiter, the header lines, the
  delimiter, the lines of the body.\<close>

definition md_file :: "string list \<Rightarrow> string list \<Rightarrow> string" where
  "md_file header body = join [NL] (''---'' # header @ ''---'' # body)"










section \<open>Contacts: marking as read\<close>

lemma mem_mark_absent: "map_of (contacts st) ident = None \<Longrightarrow> mem_markContactAsRead st ident = st"
  by (simp add: mem_markContactAsRead_def)

lemma db_mark_absent:
  "ident \<notin> contact_id ` set (contacts_table st) \<Longrightarrow> db_markContactAsRead st ident = st"
proof -
  assume "ident \<notin> contact_id ` set (contacts_table st)"
  then have "map (\<lambda>c. if contact_id c = ident then c\<lparr>contact_status := ''read''\<rparr> else c)
               (contacts_table st) = contacts_table st"
    by (intro map_idI) auto
  then show ?thesis by (simp add: db_markContactAsRead_def)
qed

lemma mem_mark_idem: "mem_markContactAsRead (mem_markContactAsRead st ident) ident = mem_markContactAsRead st ident"
  by (cases "map_of (contacts st) ident") (simp_all add: mem_markContactAsRead_def update_conv)

lemma db_mark_idem: "db_markContactAsRead (db_markContactAsRead st ident) ident = db_markContactAsRead st ident"
  by (simp add: db_markContactAsRead_def)

lemma mem_mark_lookup:
  "map_of (contacts (mem_markContactAsRead st ident)) j =
     (if j = ident then map_option (\<lambda>c. c\<lparr>contact_status := ''read''\<rparr>) (map_of (contacts st) ident)
      else map_of (contacts st) j)"
  by (cases "map_of (contacts st) ident") (auto simp add: mem_markContactAsRead_def update_conv)

lemma mem_mark_frame: "(mem_markContactAsRead st ident)\<lparr>contacts := contacts st\<rparr> = st"
  by (cases "map_of (contacts st) ident") (simp_all add: mem_markContactAsRead_def)

lemma db_id_param_Inr:
  "(db_id_param n = Inr i) = (n = Num i \<and> - 2147483648 \<le> i \<and> i \<le> 2147483647)"
  by (cases n) (auto simp: db_id_param_def)

lemma patch_mem:
  "patch_api_admin_contacts_id_read MemStorage st ident
     = (mem_markContactAsRead_number st (parseInt ident), (200, Json_success))"
  by (simp add: patch_api_admin_contacts_id_read_def MemStorage_def)

lemma patch_db_accepted:
  "db_id_param (parseInt ident) = Inr i \<Longrightarrow>
   patch_api_admin_contacts_id_read DatabaseStorage dst ident
     = (db_markContactAsRead dst i, (200, Json_success))"
  by (simp add: patch_api_admin_contacts_id_read_def DatabaseStorage_def
        db_markContactAsRead_number_def)

lemma patch_db_refused:
  "db_id_param (parseInt ident) = Inl e \<Longrightarrow>
   patch_api_admin_contacts_id_read DatabaseStorage dst ident
     = (dst, (500, Json_error ''Failed to mark contact as read''))"
  by (simp add: patch_api_admin_contacts_id_read_def DatabaseStorage_def
        db_markContactAsRead_number_def)

text \<open>
  C9, as amended. PATCH /api/admin/contacts/:id/read with \<^verbatim>\<open>DatabaseStorage\<close>, the storage
  that the routes are given: when \<^verbatim>\<open>parseInt\<close> reads the \<^verbatim>\<open>:id\<close> as an integer of the
  id column (32 bits), the answer is \<^verbatim>\<open>{"success": true}\<close>, also when no contact has the
  id, and then the state of the storage is the state before the request; when it reads
  \<^verbatim>\<open>NaN\<close> or an integer outside the column, the query raises and the answer is 500, the
  state unchanged. With \<^verbatim>\<open>MemStorage\<close> the answer is success for every \<^verbatim>\<open>:id\<close>, and
  the state is unchanged when no contact has the number read.
\<close>

theorem patch_read_absent_contact:
  "(db_id_param n = Inr i) = (n = Num i \<and> - 2147483648 \<le> i \<and> i \<le> 2147483647)
   \<and> (db_id_param (parseInt ident) = Inr i \<longrightarrow>
        snd (patch_api_admin_contacts_id_read DatabaseStorage dst ident) = (200, Json_success)
        \<and> (i \<notin> contact_id ` set (contacts_table dst) \<longrightarrow>
             fst (patch_api_admin_contacts_id_read DatabaseStorage dst ident) = dst))
   \<and> (db_id_param (parseInt ident) = Inl e \<longrightarrow>
        patch_api_admin_contacts_id_read DatabaseStorage dst ident
          = (dst, (500, Json_error ''Failed to mark contact as read'')))
   \<and> snd (patch_api_admin_contacts_id_read MemStorage st ident) = (200, Json_success)
   \<and> (parseInt ident = NaN \<or> (parseInt ident = Num i \<and> map_of (contacts st) i = None) \<longrightarrow>
        fst (patch_api_admin_contacts_id_read MemStorage st ident) = st)"
proof -
  have m: "fst (patch_api_admin_contacts_id_read MemStorage st ident) = st"
    if "parseInt ident = NaN \<or> (parseInt ident = Num i \<and> map_of (contacts st) i = None)"
    using that by (auto simp: patch_mem mem_markContactAsRead_number_def mem_mark_absent)
  have a: "snd (patch_api_admin_contacts_id_read DatabaseStorage dst ident) = (200, Json_success)
        \<and> (i \<notin> contact_id ` set (contacts_table dst) \<longrightarrow>
             fst (patch_api_admin_contacts_id_read DatabaseStorage dst ident) = dst)"
    if "db_id_param (parseInt ident) = Inr i"
    using that by (simp add: patch_db_accepted db_mark_absent)
  have r: "patch_api_admin_contacts_id_read DatabaseStorage dst ident
          = (dst, (500, Json_error ''Failed to mark contact as read''))"
    if "db_id_param (parseInt ident) = Inl e"
    using that by (rule patch_db_refused)
  have s: "snd (patch_api_admin_contacts_id_read MemStorage st ident) = (200, Json_success)"
    by (simp add: patch_mem)
  show ?thesis
  proof (intro conjI)
    show "(db_id_param n = Inr i) = (n = Num i \<and> - 2147483648 \<le> i \<and> i \<le> 2147483647)"
      by (rule db_id_param_Inr)
    show "db_id_param (parseInt ident) = Inr i \<longrightarrow>
        snd (patch_api_admin_contacts_id_read DatabaseStorage dst ident) = (200, Json_success)
        \<and> (i \<notin> contact_id ` set (contacts_table dst) \<longrightarrow>
             fst (patch_api_admin_contacts_id_read DatabaseStorage dst ident) = dst)"
      by (rule impI) (rule a)
    show "db_id_param (parseInt ident) = Inl e \<longrightarrow>
        patch_api_admin_contacts_id_read DatabaseStorage dst ident
          = (dst, (500, Json_error ''Failed to mark contact as read''))"
      by (rule impI) (rule r)
    show "snd (patch_api_admin_contacts_id_read MemStorage st ident) = (200, Json_success)"
      by (rule s)
    show "parseInt ident = NaN \<or> (parseInt ident = Num i \<and> map_of (contacts st) i = None) \<longrightarrow>
        fst (patch_api_admin_contacts_id_read MemStorage st ident) = st"
      by (rule impI) (rule m)
  qed
qed

theorem patch_read_absent_contact_witness:
  "patch_api_admin_contacts_id_read DatabaseStorage sample_db ''7'' = (sample_db, (200, Json_success))
   \<and> patch_api_admin_contacts_id_read DatabaseStorage sample_db ''abc''
       = (sample_db, (500, Json_error ''Failed to mark contact as read''))
   \<and> patch_api_admin_contacts_id_read MemStorage sample_mem ''7'' = (sample_mem, (200, Json_success))
   \<and> patch_api_admin_contacts_id_read MemStorage sample_mem ''abc'' = (sample_mem, (200, Json_success))"
proof -
  have p: "parseInt ''7'' = Num 7" "parseInt ''abc'' = NaN"
    by code_simp+
  have q: "db_id_param (parseInt ''7'') = Inr 7" "db_id_param (parseInt ''abc'') = Inl DatabaseError"
    by code_simp+
  have m: "map_of (contacts sample_mem) 7 = None"
    by (simp add: sample_mem_def)
  have d: "7 \<notin> contact_id ` set (contacts_table sample_db)"
    by (simp add: sample_db_def sample_contact_def)
  show ?thesis
    using patch_read_absent_contact [of "Num 7" 7 "''7''" sample_db DatabaseError sample_mem]
      patch_read_absent_contact [of NaN 7 "''abc''" sample_db DatabaseError sample_mem]
      p q m d
    by (simp add: prod_eq_iff)
qed

theorem patch_read_absent_contact_counterexample:
  "parseInt ''abc'' = NaN
   \<and> patch_api_admin_contacts_id_read DatabaseStorage sample_db ''abc''
       = (sample_db, (500, Json_error ''Failed to mark contact as read''))
   \<and> parseInt ''99999999999'' = Num 99999999999
   \<and> patch_api_admin_contacts_id_read DatabaseStorage sample_db ''99999999999''
       = (sample_db, (500, Json_error ''Failed to mark contact as read''))"
proof -
  have p: "parseInt ''abc'' = NaN" "parseInt ''99999999999'' = Num 99999999999"
    by code_simp+
  have q: "db_id_param (parseInt ''abc'') = Inl DatabaseError"
    "db_id_param (parseInt ''99999999999'') = Inl DatabaseError"
    by code_simp+
  show ?thesis
    using p by (simp add: patch_db_refused [OF q(1)] patch_db_refused [OF q(2)])
qed

text \<open>
  C8. Marking a contact as read is idempotent, with either storage: a second call leaves the
  state that the first call made, and so do two requests to the route, whatever the
  \<^verbatim>\<open>:id\<close>. After one call the contact of that id, if any, is the contact it was with its
  status set to \<^verbatim>\<open>read\<close>; every other contact, and everything else in the storage, is as
  before. On a number that is no integer id, \<^verbatim>\<open>MemStorage\<close> does nothing and
  \<^verbatim>\<open>DatabaseStorage\<close> raises.
\<close>

theorem mark_contact_read_idempotent:
  "mem_markContactAsRead (mem_markContactAsRead st ident) ident = mem_markContactAsRead st ident
   \<and> db_markContactAsRead (db_markContactAsRead dst ident) ident = db_markContactAsRead dst ident
   \<and> map_of (contacts (mem_markContactAsRead st ident)) j =
       (if j = ident
        then map_option (\<lambda>c. c\<lparr>contact_status := ''read''\<rparr>) (map_of (contacts st) ident)
        else map_of (contacts st) j)
   \<and> (mem_markContactAsRead st ident)\<lparr>contacts := contacts st\<rparr> = st
   \<and> db_markContactAsRead dst ident =
       dst\<lparr>contacts_table :=
             map (\<lambda>c. if contact_id c = ident then c\<lparr>contact_status := ''read''\<rparr> else c)
                 (contacts_table dst)\<rparr>
   \<and> markContactAsRead MemStorage st n
       = Inr (case n of NaN \<Rightarrow> st | Num i \<Rightarrow> mem_markContactAsRead st i)
   \<and> markContactAsRead DatabaseStorage dst n
       = (case db_id_param n of Inl e \<Rightarrow> Inl e | Inr i \<Rightarrow> Inr (db_markContactAsRead dst i))
   \<and> fst (patch_api_admin_contacts_id_read MemStorage
            (fst (patch_api_admin_contacts_id_read MemStorage st s)) s)
       = fst (patch_api_admin_contacts_id_read MemStorage st s)
   \<and> fst (patch_api_admin_contacts_id_read DatabaseStorage
            (fst (patch_api_admin_contacts_id_read DatabaseStorage dst s)) s)
       = fst (patch_api_admin_contacts_id_read DatabaseStorage dst s)"
proof -
  have m: "fst (patch_api_admin_contacts_id_read MemStorage
            (fst (patch_api_admin_contacts_id_read MemStorage st s)) s)
       = fst (patch_api_admin_contacts_id_read MemStorage st s)"
    by (cases "parseInt s") (simp_all add: patch_mem mem_markContactAsRead_number_def mem_mark_idem)
  have d: "fst (patch_api_admin_contacts_id_read DatabaseStorage
            (fst (patch_api_admin_contacts_id_read DatabaseStorage dst s)) s)
       = fst (patch_api_admin_contacts_id_read DatabaseStorage dst s)"
  proof (cases "db_id_param (parseInt s)")
    case (Inl e)
    then show ?thesis by (simp add: patch_db_refused)
  next
    case (Inr i)
    then show ?thesis by (simp add: patch_db_accepted db_mark_idem)
  qed
  have t: "db_markContactAsRead dst ident =
       dst\<lparr>contacts_table :=
             map (\<lambda>c. if contact_id c = ident then c\<lparr>contact_status := ''read''\<rparr> else c)
                 (contacts_table dst)\<rparr>"
    by (simp add: db_markContactAsRead_def)
  have i: "markContactAsRead MemStorage st n
       = Inr (case n of NaN \<Rightarrow> st | Num i \<Rightarrow> mem_markContactAsRead st i)"
    "markContactAsRead DatabaseStorage dst n
       = (case db_id_param n of Inl e \<Rightarrow> Inl e | Inr i \<Rightarrow> Inr (db_markContactAsRead dst i))"
    by (simp_all add: MemStorage_def DatabaseStorage_def mem_markContactAsRead_number_def
          db_markContactAsRead_number_def)
  show ?thesis
    using m d t i mem_mark_idem [of st ident] db_mark_idem [of dst ident]
      mem_mark_lookup [of st ident j] mem_mark_frame [of st ident]
    by simp
qed

theorem mark_contact_read_idempotent_witness:
  "map_of (contacts (mem_markContactAsRead sample_mem 1)) 1
     = Some (sample_contact\<lparr>contact_status := ''read''\<rparr>)
   \<and> mem_markContactAsRead (mem_markContactAsRead sample_mem 1) 1
     = mem_markContactAsRead sample_mem 1
   \<and> contacts_table (db_markContactAsRead sample_db 1)
     = [sample_contact\<lparr>contact_status := ''read''\<rparr>]
   \<and> markContactAsRead DatabaseStorage sample_db (Num 1) = Inr (db_markContactAsRead sample_db 1)
   \<and> markContactAsRead DatabaseStorage sample_db NaN = Inl DatabaseError"
  using mark_contact_read_idempotent [of sample_mem 1 sample_db 1 "Num 1" "''1''"]
    mark_contact_read_idempotent [of sample_mem 1 sample_db 1 NaN "''1''"]
  by (simp add: sample_mem_def sample_db_def sample_contact_def db_id_param_def)

section \<open>Posts: creation\<close>

lemma mem_getPostBySlug_None: "(mem_getPostBySlug st slug = None) = (slug \<notin> set (mem_slugs st))"
  by (auto simp: mem_getPostBySlug_def mem_slugs_def find_None_iff)

lemma first_row_filter_None: "(first_row (filter P xs) = None) = (\<forall>x \<in> set xs. \<not> P x)"
proof -
  have "(first_row (filter P xs) = None) = (filter P xs = [])"
    by (simp add: first_row_def split: list.splits)
  then show ?thesis by (simp add: filter_empty_conv)
qed

lemma db_getPostBySlug_None: "(db_getPostBySlug st slug = None) = (slug \<notin> set (db_slugs st))"
  by (auto simp: db_getPostBySlug_def db_slugs_def first_row_filter_None)

lemma route_create_duplicate:
  assumes "insertPostSchema req_body = Inr pd"
    and "getPostBySlug storage st (effective_slug pd) \<noteq> None"
  shows "post_api_admin_posts insertPostSchema storage st now req_body =
           (st, (400, Json_error ''Post with this slug already exists''))"
  using assms
  by (auto simp: post_api_admin_posts_def effective_slug_def Let_def split: option.splits)

lemma db_create_slugs:
  "db_slugs (fst (db_createPost st now pd)) = db_slugs st @ [ins_slug pd]"
  by (simp add: db_createPost_def db_slugs_def Let_def)

lemma db_route_create_slugs:
  "db_slugs (fst (post_api_admin_posts insertPostSchema DatabaseStorage st now req_body)) = db_slugs st
   \<or> (\<exists>s. s \<notin> set (db_slugs st) \<and>
       db_slugs (fst (post_api_admin_posts insertPostSchema DatabaseStorage st now req_body)) = db_slugs st @ [s])"
proof (cases "insertPostSchema req_body")
  case (Inl e)
  then show ?thesis by (simp add: post_api_admin_posts_def)
next
  case (Inr pd)
  show ?thesis
  proof (cases "db_getPostBySlug st (effective_slug pd)")
    case None
    let ?pd = "if ins_slug pd = [] then pd\<lparr>ins_slug := slugify (ins_title pd)\<rparr> else pd"
    have e: "ins_slug ?pd = effective_slug pd" by (simp add: effective_slug_def)
    have "fst (post_api_admin_posts insertPostSchema DatabaseStorage st now req_body)
            = fst (db_createPost st now ?pd)"
      using Inr None e
      by (simp add: post_api_admin_posts_def DatabaseStorage_def Let_def split: prod.splits)
    then show ?thesis
      using None e by (auto simp: db_create_slugs db_getPostBySlug_None simp del: )
  next
    case (Some p)
    then show ?thesis
      using Inr route_create_duplicate [of insertPostSchema req_body pd DatabaseStorage st now]
      by (simp add: DatabaseStorage_def)
  qed
qed


lemma update_fresh: "k \<notin> fst ` set al \<Longrightarrow> AList.update k v al = al @ [(k, v)]"
  by (induction al) auto

lemma mem_fresh_unused:
  assumes "mem_fresh st"
  shows "next_addr st \<notin> snd ` set (posts st)" and "currentPostId st \<notin> fst ` set (posts st)"
  using assms by (auto simp: mem_fresh_def list_all_iff)

lemma mem_create_slugs:
  assumes "mem_fresh st"
  shows "mem_slugs (fst (mem_createPost st now pd)) = mem_slugs st @ [ins_slug pd]"
proof -
  have "map (\<lambda>a. post_slug (if a = next_addr st then p else post_objs st a)) (map snd (posts st))
          = map (\<lambda>a. post_slug (post_objs st a)) (map snd (posts st))" for p
    using mem_fresh_unused(1) [OF assms] by (intro map_cong) force+
  then show ?thesis
    using mem_fresh_unused(2) [OF assms]
    by (simp add: mem_createPost_def mem_slugs_def Let_def update_fresh fun_upd_def)
qed

lemma mem_create_fresh:
  assumes "mem_fresh st"
  shows "mem_fresh (fst (mem_createPost st now pd))"
proof -
  have "posts (fst (mem_createPost st now pd)) = posts st @ [(currentPostId st, next_addr st)]"
    using mem_fresh_unused(2) [OF assms] by (simp add: mem_createPost_def Let_def update_fresh)
  moreover have "currentPostId (fst (mem_createPost st now pd)) = currentPostId st + 1"
    "next_addr (fst (mem_createPost st now pd)) = Suc (next_addr st)"
    by (simp_all add: mem_createPost_def Let_def)
  ultimately show ?thesis
    using assms by (auto simp: mem_fresh_def list_all_iff)
qed

lemma mem_route_create_slugs:
  assumes "mem_fresh st"
  shows
  "(mem_slugs (fst (post_api_admin_posts insertPostSchema MemStorage st now req_body)) = mem_slugs st
    \<or> (\<exists>s. s \<notin> set (mem_slugs st) \<and>
       mem_slugs (fst (post_api_admin_posts insertPostSchema MemStorage st now req_body)) = mem_slugs st @ [s]))
   \<and> mem_fresh (fst (post_api_admin_posts insertPostSchema MemStorage st now req_body))"
proof (cases "insertPostSchema req_body")
  case (Inl e)
  then show ?thesis using assms by (simp add: post_api_admin_posts_def)
next
  case (Inr pd)
  show ?thesis
  proof (cases "mem_getPostBySlug st (effective_slug pd)")
    case None
    let ?pd = "if ins_slug pd = [] then pd\<lparr>ins_slug := slugify (ins_title pd)\<rparr> else pd"
    have e: "ins_slug ?pd = effective_slug pd" by (simp add: effective_slug_def)
    have "fst (post_api_admin_posts insertPostSchema MemStorage st now req_body)
            = fst (mem_createPost st now ?pd)"
      using Inr None e
      by (simp add: post_api_admin_posts_def MemStorage_def Let_def split: prod.splits)
    then show ?thesis
      using None e assms mem_create_fresh [OF assms, of now ?pd]
      by (auto simp: mem_create_slugs mem_getPostBySlug_None)
  next
    case (Some p)
    then show ?thesis
      using Inr assms route_create_duplicate [of insertPostSchema req_body pd MemStorage st now]
      by (simp add: MemStorage_def)
  qed
qed

text \<open>
  C1. A request POST /api/admin/posts whose body is valid and whose slug, given or derived
  from the title, is the slug of a post in the store is answered 400 with an error message,
  and the state of the storage is the state before the request: no post is inserted. With
  either storage. Moreover no request to the route, accepted or not, makes two posts share
  a slug: if the slugs of the store are pairwise different before the request, they are
  after it (for \<^verbatim>\<open>MemStorage\<close>, whose counters are ahead of the entries of its map
  before the request and after it).
\<close>
theorem create_post_duplicate_slug:
  "(insertPostSchema req_body = Inr pd \<and> effective_slug pd \<in> set (mem_slugs st) \<longrightarrow>
      post_api_admin_posts insertPostSchema MemStorage st now req_body
        = (st, (400, Json_error ''Post with this slug already exists'')))
   \<and> (insertPostSchema req_body = Inr pd \<and> effective_slug pd \<in> set (db_slugs dst) \<longrightarrow>
      post_api_admin_posts insertPostSchema DatabaseStorage dst now req_body
        = (dst, (400, Json_error ''Post with this slug already exists'')))
   \<and> (distinct (db_slugs dst) \<longrightarrow>
      distinct (db_slugs (fst (post_api_admin_posts insertPostSchema DatabaseStorage dst now req_body))))
   \<and> (mem_fresh st \<and> distinct (mem_slugs st) \<longrightarrow>
      distinct (mem_slugs (fst (post_api_admin_posts insertPostSchema MemStorage st now req_body)))
      \<and> mem_fresh (fst (post_api_admin_posts insertPostSchema MemStorage st now req_body)))"
proof -
  have m: "post_api_admin_posts insertPostSchema MemStorage st now req_body
        = (st, (400, Json_error ''Post with this slug already exists''))"
    if "insertPostSchema req_body = Inr pd" "effective_slug pd \<in> set (mem_slugs st)"
    using that route_create_duplicate [of insertPostSchema req_body pd MemStorage st now]
    by (simp add: MemStorage_def mem_getPostBySlug_None)
  have d: "post_api_admin_posts insertPostSchema DatabaseStorage dst now req_body
        = (dst, (400, Json_error ''Post with this slug already exists''))"
    if "insertPostSchema req_body = Inr pd" "effective_slug pd \<in> set (db_slugs dst)"
    using that route_create_duplicate [of insertPostSchema req_body pd DatabaseStorage dst now]
    by (simp add: DatabaseStorage_def db_getPostBySlug_None)
  have dd: "distinct (db_slugs (fst (post_api_admin_posts insertPostSchema DatabaseStorage dst now req_body)))"
    if "distinct (db_slugs dst)"
    using that db_route_create_slugs [of insertPostSchema dst now req_body] by auto
  have md: "distinct (mem_slugs (fst (post_api_admin_posts insertPostSchema MemStorage st now req_body)))
      \<and> mem_fresh (fst (post_api_admin_posts insertPostSchema MemStorage st now req_body))"
    if "mem_fresh st" "distinct (mem_slugs st)"
    using that mem_route_create_slugs [of st insertPostSchema now req_body] by auto
  show ?thesis using m d dd md by blast
qed

theorem create_post_duplicate_slug_witness:
  "post_api_admin_posts Inr MemStorage sample_mem 5 sample_insert
     = (sample_mem, (400, Json_error ''Post with this slug already exists''))
   \<and> post_api_admin_posts Inr DatabaseStorage sample_db 5 sample_insert
     = (sample_db, (400, Json_error ''Post with this slug already exists''))
   \<and> distinct (db_slugs (fst (post_api_admin_posts Inr DatabaseStorage sample_db 5 sample_insert)))
   \<and> distinct (mem_slugs (fst (post_api_admin_posts Inr MemStorage sample_mem 5 sample_insert)))"
proof -
  have e: "effective_slug sample_insert = ''hello''"
    by code_simp
  have m: "mem_slugs sample_mem = [''hello'']"
    by (simp add: mem_slugs_def sample_mem_def sample_post_def)
  have d: "db_slugs sample_db = [''hello'']"
    by (simp add: db_slugs_def sample_db_def sample_post_def)
  have f: "mem_fresh sample_mem"
    by (simp add: mem_fresh_def sample_mem_def)
  show ?thesis
    using create_post_duplicate_slug
            [of Inr sample_insert sample_insert sample_mem 5 sample_db] e m d f
    by simp
qed


section \<open>Posts: the derived slug\<close>

lemma squeeze_run: "P c \<Longrightarrow> squeeze P r (c # cs) = r # squeeze P r (dropWhile P cs)"
proof (induction cs arbitrary: c)
  case Nil
  then show ?case by simp
next
  case (Cons d ds)
  then show ?case by (cases "P d") simp_all
qed

lemma squeeze_skip: "\<not> P c \<Longrightarrow> squeeze P r (c # cs) = c # squeeze P r cs"
  by (cases cs) simp_all

lemma spaces_to_hyphen_squeeze: "spaces_to_hyphen s = squeeze isSpace (CHR ''-'') s"
  by (induction s rule: spaces_to_hyphen.induct) (simp_all add: squeeze_run squeeze_skip)

lemma collapse_hyphens_squeeze:
  "collapse_hyphens s = squeeze (\<lambda>c. c = CHR ''-'') (CHR ''-'') s"
proof (induction s rule: collapse_hyphens.induct)
  case 1
  show ?case by simp
next
  case (2 c)
  show ?case by simp
next
  case (3 c d cs)
  show ?case
  proof (cases "c = CHR ''-'' \<and> d = CHR ''-''")
    case True
    then show ?thesis using 3 by (simp add: squeeze_run)
  next
    case False
    then show ?thesis using 3 by auto
  qed
qed

lemma squeeze_set: "set (squeeze P r s) \<subseteq> insert r (set s)"
  by (induction P r s rule: squeeze.induct) auto

lemma squeeze_none_left: "\<not> P r \<Longrightarrow> c \<in> set (squeeze P r s) \<Longrightarrow> \<not> P c"
  by (induction P r s rule: squeeze.induct) (auto split: if_splits)

lemma trim_no_space: "\<forall>c \<in> set s. \<not> isSpace c \<Longrightarrow> trim s = s"
proof -
  assume a: "\<forall>c \<in> set s. \<not> isSpace c"
  have d: "dropWhile isSpace xs = xs" if "\<forall>c \<in> set xs. \<not> isSpace c" for xs
    using that by (cases xs) simp_all
  have "dropWhile isSpace s = s" using a by (rule d)
  moreover have "dropWhile isSpace (rev s) = rev s" using a by (intro d) simp
  ultimately show ?thesis by (simp add: trim_def)
qed

lemma hyphen_not_space: "\<not> isSpace (CHR ''-'')"
  by (simp add: isSpace_def)

lemma slugify_spec: "slugify title = spec_slug title"
proof -
  let ?a = "filter (\<lambda>c. isWord c \<or> isSpace c \<or> c = CHR ''-'') (toLowerCase title)"
  let ?b = "squeeze isSpace (CHR ''-'') ?a"
  let ?c = "squeeze (\<lambda>c. c = CHR ''-'') (CHR ''-'') ?b"
  have b: "\<not> isSpace c" if "c \<in> set ?b" for c
    by (rule squeeze_none_left [of isSpace "CHR ''-''" c ?a, OF hyphen_not_space that])
  have "\<not> isSpace c" if "c \<in> set ?c" for c
  proof -
    have "set ?c \<subseteq> insert (CHR ''-'') (set ?b)"
      by (rule squeeze_set)
    with that have "c = CHR ''-'' \<or> c \<in> set ?b" by blast
    then show ?thesis using b hyphen_not_space by blast
  qed
  then have "trim ?c = ?c" by (intro trim_no_space) blast
  then show ?thesis
    by (simp add: slugify_def spec_slug_def strip_non_slug_def spaces_to_hyphen_squeeze
          collapse_hyphens_squeeze)
qed


lemma route_create_fresh:
  assumes "insertPostSchema req_body = Inr pd"
    and "ins_slug pd = []"
    and "getPostBySlug storage st (spec_slug (ins_title pd)) = None"
  shows "post_api_admin_posts insertPostSchema storage st now req_body =
           (fst (createPost storage st now (pd\<lparr>ins_slug := spec_slug (ins_title pd)\<rparr>)),
            (200, Json_post (read_post storage
               (fst (createPost storage st now (pd\<lparr>ins_slug := spec_slug (ins_title pd)\<rparr>)))
               (snd (createPost storage st now (pd\<lparr>ins_slug := spec_slug (ins_title pd)\<rparr>))))))"
  using assms
  by (simp add: post_api_admin_posts_def slugify_spec Let_def split: prod.splits)

text \<open>
  C2. The slug that the route derives from a title is the title in lower case, without the
  characters that are neither word characters nor white space nor hyphens, with every run of
  white space replaced by one hyphen and every run of hyphens collapsed to one: the final
  \<^verbatim>\<open>trim()\<close> of the route finds nothing to remove. A request POST /api/admin/posts
  with a valid body and an empty slug, when no post has the derived slug, is answered with
  the new post, whose slug is the derived one, and that post is in the store. With either
  storage.
\<close>
theorem create_post_derives_slug:
  "slugify title = spec_slug title
   \<and> (insertPostSchema req_body = Inr pd \<and> ins_slug pd = []
        \<and> spec_slug (ins_title pd) \<notin> set (mem_slugs st) \<longrightarrow>
       (\<exists>q. snd (post_api_admin_posts insertPostSchema MemStorage st now req_body)
                = (200, Json_post q)
            \<and> post_slug q = spec_slug (ins_title pd)
            \<and> post_title q = ins_title pd
            \<and> post_objs (fst (post_api_admin_posts insertPostSchema MemStorage st now req_body))
                 (next_addr st) = q
            \<and> map_of (posts (fst (post_api_admin_posts insertPostSchema MemStorage st now req_body)))
                 (currentPostId st) = Some (next_addr st)))
   \<and> (insertPostSchema req_body = Inr pd \<and> ins_slug pd = []
        \<and> spec_slug (ins_title pd) \<notin> set (db_slugs dst) \<longrightarrow>
       (\<exists>q. snd (post_api_admin_posts insertPostSchema DatabaseStorage dst now req_body)
                = (200, Json_post q)
            \<and> post_slug q = spec_slug (ins_title pd)
            \<and> post_title q = ins_title pd
            \<and> posts_table (fst (post_api_admin_posts insertPostSchema DatabaseStorage dst now req_body))
                = posts_table dst @ [q]))"
proof -
  have m: "\<exists>q. snd (post_api_admin_posts insertPostSchema MemStorage st now req_body)
                = (200, Json_post q)
            \<and> post_slug q = spec_slug (ins_title pd)
            \<and> post_title q = ins_title pd
            \<and> post_objs (fst (post_api_admin_posts insertPostSchema MemStorage st now req_body))
                 (next_addr st) = q
            \<and> map_of (posts (fst (post_api_admin_posts insertPostSchema MemStorage st now req_body)))
                 (currentPostId st) = Some (next_addr st)"
    if "insertPostSchema req_body = Inr pd" "ins_slug pd = []"
      "spec_slug (ins_title pd) \<notin> set (mem_slugs st)"
  proof -
    have "getPostBySlug MemStorage st (spec_slug (ins_title pd)) = None"
      using that(3) by (simp add: MemStorage_def mem_getPostBySlug_None)
    with that(1,2)
    have "post_api_admin_posts insertPostSchema MemStorage st now req_body =
           (fst (createPost MemStorage st now (pd\<lparr>ins_slug := spec_slug (ins_title pd)\<rparr>)),
            (200, Json_post (read_post MemStorage
               (fst (createPost MemStorage st now (pd\<lparr>ins_slug := spec_slug (ins_title pd)\<rparr>)))
               (snd (createPost MemStorage st now (pd\<lparr>ins_slug := spec_slug (ins_title pd)\<rparr>))))))"
      by (rule route_create_fresh)
    then show ?thesis
      by (simp add: MemStorage_def mem_createPost_def Let_def update_conv)
  qed
  have d: "\<exists>q. snd (post_api_admin_posts insertPostSchema DatabaseStorage dst now req_body)
                = (200, Json_post q)
            \<and> post_slug q = spec_slug (ins_title pd)
            \<and> post_title q = ins_title pd
            \<and> posts_table (fst (post_api_admin_posts insertPostSchema DatabaseStorage dst now req_body))
                = posts_table dst @ [q]"
    if "insertPostSchema req_body = Inr pd" "ins_slug pd = []"
      "spec_slug (ins_title pd) \<notin> set (db_slugs dst)"
  proof -
    have "getPostBySlug DatabaseStorage dst (spec_slug (ins_title pd)) = None"
      using that(3) by (simp add: DatabaseStorage_def db_getPostBySlug_None)
    with that(1,2)
    have "post_api_admin_posts insertPostSchema DatabaseStorage dst now req_body =
           (fst (createPost DatabaseStorage dst now (pd\<lparr>ins_slug := spec_slug (ins_title pd)\<rparr>)),
            (200, Json_post (read_post DatabaseStorage
               (fst (createPost DatabaseStorage dst now (pd\<lparr>ins_slug := spec_slug (ins_title pd)\<rparr>)))
               (snd (createPost DatabaseStorage dst now (pd\<lparr>ins_slug := spec_slug (ins_title pd)\<rparr>))))))"
      by (rule route_create_fresh)
    then show ?thesis
      by (simp add: DatabaseStorage_def db_createPost_def Let_def)
  qed
  show ?thesis using m d slugify_spec by blast
qed

theorem create_post_derives_slug_witness:
  "slugify ''Hello,  World -- of  JS!'' = ''hello-world-of-js''
   \<and> post_slug (last (posts_table (fst (post_api_admin_posts Inr DatabaseStorage sample_db 5
        (sample_insert\<lparr>ins_title := ''Hello,  World -- of  JS!''\<rparr>))))) = ''hello-world-of-js''
   \<and> post_slug (post_objs (fst (post_api_admin_posts Inr MemStorage sample_mem 5
        (sample_insert\<lparr>ins_title := ''Hello,  World -- of  JS!''\<rparr>))) 1) = ''hello-world-of-js''"
proof -
  let ?pd = "sample_insert\<lparr>ins_title := ''Hello,  World -- of  JS!''\<rparr>"
  have s: "spec_slug ''Hello,  World -- of  JS!'' = ''hello-world-of-js''"
    by code_simp
  have p: "ins_slug ?pd = []" "ins_title ?pd = ''Hello,  World -- of  JS!''"
    by (simp_all add: sample_insert_def)
  have m: "mem_slugs sample_mem = [''hello'']" "next_addr sample_mem = 1"
    by (simp_all add: mem_slugs_def sample_mem_def sample_post_def)
  have d: "db_slugs sample_db = [''hello'']"
    by (simp add: db_slugs_def sample_db_def sample_post_def)
  show ?thesis
    using create_post_derives_slug
            [of "''Hello,  World -- of  JS!''" Inr ?pd ?pd sample_mem 5 sample_db] s p m d
    by auto
qed


section \<open>Posts: fetching by slug\<close>

lemma get_route_not_found:
  "getPostBySlug storage st slug = None \<Longrightarrow>
   get_api_posts_slug storage st slug = (st, (404, Json_error ''Post not found''))"
  by (simp add: get_api_posts_slug_def)

lemma get_route_found:
  "getPostBySlug storage st slug = Some r \<Longrightarrow>
   get_api_posts_slug storage st slug =
     (incrementViewCount storage st slug,
      (200, Json_post (read_post storage (incrementViewCount storage st slug) r)))"
  by (simp add: get_api_posts_slug_def Let_def)

lemma mem_increment_found:
  assumes "mem_getPostBySlug st slug = Some a"
  shows "mem_incrementViewCount st slug =
           st\<lparr>post_objs := (post_objs st)(a := (post_objs st a)\<lparr>post_viewCount :=
                     Some (or_zero (post_viewCount (post_objs st a)) + 1)\<rparr>),
              postsDir := savePostToFile (postsDir st) ((post_objs st a)\<lparr>post_viewCount :=
                     Some (or_zero (post_viewCount (post_objs st a)) + 1)\<rparr>)\<rparr>"
  using assms by (simp add: mem_incrementViewCount_def mem_getPostBySlug_def Let_def)

lemma mem_found_slug: "mem_getPostBySlug st slug = Some a \<Longrightarrow> post_slug (post_objs st a) = slug"
  by (auto simp: mem_getPostBySlug_def find_Some_iff)

lemma mem_increment_stays_found:
  assumes "mem_getPostBySlug st slug = Some a"
  shows "mem_getPostBySlug (mem_incrementViewCount st slug) slug = Some a"
proof -
  have "post_slug (post_objs (mem_incrementViewCount st slug) b) = post_slug (post_objs st b)" for b
    using assms by (simp add: mem_increment_found mem_found_slug)
  moreover have "posts (mem_incrementViewCount st slug) = posts st"
    using assms by (simp add: mem_increment_found)
  ultimately show ?thesis
    using assms by (simp add: mem_getPostBySlug_def)
qed

lemma db_found_slug: "db_getPostBySlug st slug = Some p \<Longrightarrow> post_slug p = slug \<and> p \<in> set (posts_table st)"
proof -
  assume "db_getPostBySlug st slug = Some p"
  then obtain rest where "filter (\<lambda>q. post_slug q = slug) (posts_table st) = p # rest"
    by (auto simp: db_getPostBySlug_def first_row_def split: list.splits)
  then have "p \<in> set (filter (\<lambda>q. post_slug q = slug) (posts_table st))" by simp
  then show ?thesis by simp
qed

lemma filter_map_bump:
  "filter (\<lambda>q. post_slug q = slug) (map (\<lambda>p. if post_slug p = slug then f p else p) rows)
     = map f (filter (\<lambda>q. post_slug q = slug) rows)"
  if "\<And>p. post_slug (f p) = post_slug p"
  using that by (induction rows) auto

lemma db_increment_found:
  assumes "db_getPostBySlug st slug = Some p"
  shows "db_getPostBySlug (db_incrementViewCount st slug) slug =
           Some (p\<lparr>post_viewCount := map_option (\<lambda>n. n + 1) (post_viewCount p)\<rparr>)"
proof -
  obtain rest where r: "filter (\<lambda>q. post_slug q = slug) (posts_table st) = p # rest"
    using assms by (auto simp: db_getPostBySlug_def first_row_def split: list.splits)
  have "filter (\<lambda>q. post_slug q = slug) (posts_table (db_incrementViewCount st slug))
          = map (\<lambda>p. p\<lparr>post_viewCount := map_option (\<lambda>n. n + 1) (post_viewCount p)\<rparr>)
              (filter (\<lambda>q. post_slug q = slug) (posts_table st))"
    by (simp add: db_incrementViewCount_def filter_map_bump)
  then show ?thesis
    using r by (simp add: db_getPostBySlug_def first_row_def)
qed

lemma filter_map_other:
  "filter (\<lambda>q. post_slug q \<noteq> slug) (map (\<lambda>p. if post_slug p = slug then f p else p) rows)
     = filter (\<lambda>q. post_slug q \<noteq> slug) rows"
  if "\<And>p. post_slug (f p) = post_slug p"
  using that by (induction rows) auto

lemma db_increment_others:
  "filter (\<lambda>q. post_slug q \<noteq> slug) (posts_table (db_incrementViewCount st slug))
     = filter (\<lambda>q. post_slug q \<noteq> slug) (posts_table st)"
  by (simp add: db_incrementViewCount_def filter_map_other)

lemma mem_fetches:
  assumes "mem_getPostBySlug st slug = Some a"
  shows "mem_getPostBySlug (fetches MemStorage k st slug) slug = Some a
         \<and> post_objs (fetches MemStorage k st slug) a
             = (if k = 0 then post_objs st a
                else (post_objs st a)\<lparr>post_viewCount :=
                        Some (or_zero (post_viewCount (post_objs st a)) + int k)\<rparr>)"
proof (induction k)
  case 0
  show ?case using assms by (simp add: fetches_def)
next
  case (Suc k)
  let ?s = "fetches MemStorage k st slug"
  have f: "mem_getPostBySlug ?s slug = Some a" using Suc by simp
  have step: "fetches MemStorage (Suc k) st slug = mem_incrementViewCount ?s slug"
    using f by (simp add: fetches_def get_route_found MemStorage_def)
  have 1: "mem_getPostBySlug (fetches MemStorage (Suc k) st slug) slug = Some a"
    using f by (simp add: step mem_increment_stays_found)
  have "post_objs (mem_incrementViewCount ?s slug) a
          = (post_objs ?s a)\<lparr>post_viewCount := Some (or_zero (post_viewCount (post_objs ?s a)) + 1)\<rparr>"
    by (simp add: mem_increment_found [OF f])
  also have "\<dots> = (post_objs st a)\<lparr>post_viewCount :=
                        Some (or_zero (post_viewCount (post_objs st a)) + int (Suc k))\<rparr>"
    using Suc by (cases "k = 0") (simp_all add: or_zero_def)
  finally show ?case using 1 by (simp add: step)
qed

lemma db_fetches:
  assumes "db_getPostBySlug st slug = Some p" and "post_viewCount p = Some n"
  shows "db_getPostBySlug (fetches DatabaseStorage k st slug) slug
           = Some (p\<lparr>post_viewCount := Some (n + int k)\<rparr>)"
proof (induction k)
  case 0
  show ?case using assms by (simp add: fetches_def)
next
  case (Suc k)
  let ?s = "fetches DatabaseStorage k st slug"
  have step: "fetches DatabaseStorage (Suc k) st slug = db_incrementViewCount ?s slug"
    using Suc by (simp add: fetches_def get_route_found DatabaseStorage_def)
  show ?case
    using db_increment_found [OF Suc] by (simp add: step add.assoc)
qed


text \<open>The rows of the posts table keep having a view count under the operations on posts.\<close>

lemma db_counted_kept:
  assumes "db_counted st"
  shows "db_counted (fst (db_createPost st now pd))"
    and "db_counted (db_incrementViewCount st slug)"
    and "db_counted (fst (db_deletePost st ident))"
proof -
  show "db_counted (fst (db_createPost st now pd))"
    using assms by (simp add: db_counted_def db_createPost_def Let_def)
  show "db_counted (db_incrementViewCount st slug)"
    using assms by (auto simp: db_counted_def db_incrementViewCount_def list_all_iff)
  show "db_counted (fst (db_deletePost st ident))"
    using assms by (auto simp: db_counted_def db_deletePost_def list_all_iff split: list.splits)
qed

text \<open>
  C3. GET /api/posts/:slug for a slug that a post of the store has: the answer is 200 with
  the post, and the stored view count of that post is one more than before, while no other
  post changes; after \<open>k\<close> such requests it is \<open>k\<close> more. \<^verbatim>\<open>MemStorage\<close> reads an
  absent count as 0; with \<^verbatim>\<open>DatabaseStorage\<close> the count of the row is a number \<open>n\<close>.
  For a slug that no post has: the answer is 404 and the state is unchanged.
\<close>
theorem fetch_post_increments_view_count:
  "(mem_getPostBySlug st slug = Some a \<longrightarrow>
      post_slug (post_objs st a) = slug
      \<and> snd (get_api_posts_slug MemStorage st slug)
          = (200, Json_post ((post_objs st a)\<lparr>post_viewCount :=
                                Some (or_zero (post_viewCount (post_objs st a)) + 1)\<rparr>))
      \<and> post_objs (fst (get_api_posts_slug MemStorage st slug))
          = (post_objs st)(a := (post_objs st a)\<lparr>post_viewCount :=
                                Some (or_zero (post_viewCount (post_objs st a)) + 1)\<rparr>)
      \<and> posts (fst (get_api_posts_slug MemStorage st slug)) = posts st
      \<and> or_zero (post_viewCount (post_objs (fetches MemStorage k st slug) a))
          = or_zero (post_viewCount (post_objs st a)) + int k)
   \<and> (mem_getPostBySlug st slug = None \<longrightarrow>
      get_api_posts_slug MemStorage st slug = (st, (404, Json_error ''Post not found'')))
   \<and> (db_getPostBySlug dst slug = Some p \<and> post_viewCount p = Some n \<longrightarrow>
      post_slug p = slug
      \<and> snd (get_api_posts_slug DatabaseStorage dst slug) = (200, Json_post p)
      \<and> db_getPostBySlug (fst (get_api_posts_slug DatabaseStorage dst slug)) slug
          = Some (p\<lparr>post_viewCount := Some (n + 1)\<rparr>)
      \<and> filter (\<lambda>q. post_slug q \<noteq> slug)
           (posts_table (fst (get_api_posts_slug DatabaseStorage dst slug)))
          = filter (\<lambda>q. post_slug q \<noteq> slug) (posts_table dst)
      \<and> db_getPostBySlug (fetches DatabaseStorage k dst slug) slug
          = Some (p\<lparr>post_viewCount := Some (n + int k)\<rparr>))
   \<and> (db_getPostBySlug dst slug = None \<longrightarrow>
      get_api_posts_slug DatabaseStorage dst slug = (dst, (404, Json_error ''Post not found'')))"
proof -
  have m: "post_slug (post_objs st a) = slug
      \<and> snd (get_api_posts_slug MemStorage st slug)
          = (200, Json_post ((post_objs st a)\<lparr>post_viewCount :=
                                Some (or_zero (post_viewCount (post_objs st a)) + 1)\<rparr>))
      \<and> post_objs (fst (get_api_posts_slug MemStorage st slug))
          = (post_objs st)(a := (post_objs st a)\<lparr>post_viewCount :=
                                Some (or_zero (post_viewCount (post_objs st a)) + 1)\<rparr>)
      \<and> posts (fst (get_api_posts_slug MemStorage st slug)) = posts st
      \<and> or_zero (post_viewCount (post_objs (fetches MemStorage k st slug) a))
          = or_zero (post_viewCount (post_objs st a)) + int k"
    if f: "mem_getPostBySlug st slug = Some a"
  proof -
    have r: "get_api_posts_slug MemStorage st slug =
        (mem_incrementViewCount st slug,
         (200, Json_post (post_objs (mem_incrementViewCount st slug) a)))"
      using f get_route_found [of MemStorage st slug a] by (simp add: MemStorage_def)
    have k: "or_zero (post_viewCount (post_objs (fetches MemStorage k st slug) a))
          = or_zero (post_viewCount (post_objs st a)) + int k"
      using mem_fetches [OF f, of k] by (simp add: or_zero_def)
    show ?thesis
      using k by (simp add: r mem_increment_found [OF f] mem_found_slug [OF f])
  qed
  have m0: "get_api_posts_slug MemStorage st slug = (st, (404, Json_error ''Post not found''))"
    if "mem_getPostBySlug st slug = None"
    using that get_route_not_found [of MemStorage st slug] by (simp add: MemStorage_def)
  have d: "post_slug p = slug
      \<and> snd (get_api_posts_slug DatabaseStorage dst slug) = (200, Json_post p)
      \<and> db_getPostBySlug (fst (get_api_posts_slug DatabaseStorage dst slug)) slug
          = Some (p\<lparr>post_viewCount := Some (n + 1)\<rparr>)
      \<and> filter (\<lambda>q. post_slug q \<noteq> slug)
           (posts_table (fst (get_api_posts_slug DatabaseStorage dst slug)))
          = filter (\<lambda>q. post_slug q \<noteq> slug) (posts_table dst)
      \<and> db_getPostBySlug (fetches DatabaseStorage k dst slug) slug
          = Some (p\<lparr>post_viewCount := Some (n + int k)\<rparr>)"
    if f: "db_getPostBySlug dst slug = Some p" and v: "post_viewCount p = Some n"
  proof -
    have r: "get_api_posts_slug DatabaseStorage dst slug =
        (db_incrementViewCount dst slug, (200, Json_post p))"
      using f get_route_found [of DatabaseStorage dst slug p] by (simp add: DatabaseStorage_def)
    show ?thesis
      using db_found_slug [OF f] db_increment_found [OF f] v db_fetches [OF f v, of k]
      by (simp add: r db_increment_others)
  qed
  have d0: "get_api_posts_slug DatabaseStorage dst slug = (dst, (404, Json_error ''Post not found''))"
    if "db_getPostBySlug dst slug = None"
    using that get_route_not_found [of DatabaseStorage dst slug] by (simp add: DatabaseStorage_def)
  show ?thesis using m m0 d d0 by blast
qed

theorem fetch_post_increments_view_count_witness:
  "snd (get_api_posts_slug MemStorage sample_mem ''hello'')
     = (200, Json_post (sample_post\<lparr>post_viewCount := Some 1\<rparr>))
   \<and> post_viewCount (post_objs (fst (get_api_posts_slug MemStorage sample_mem ''hello'')) 0) = Some 1
   \<and> get_api_posts_slug MemStorage sample_mem ''none'' = (sample_mem, (404, Json_error ''Post not found''))
   \<and> snd (get_api_posts_slug DatabaseStorage sample_db ''hello'') = (200, Json_post sample_post)
   \<and> db_getPostBySlug (fst (get_api_posts_slug DatabaseStorage sample_db ''hello'')) ''hello''
       = Some (sample_post\<lparr>post_viewCount := Some 1\<rparr>)
   \<and> db_getPostBySlug (fetches DatabaseStorage 3 sample_db ''hello'') ''hello''
       = Some (sample_post\<lparr>post_viewCount := Some 3\<rparr>)
   \<and> get_api_posts_slug DatabaseStorage sample_db ''none'' = (sample_db, (404, Json_error ''Post not found''))"
proof -
  have m: "mem_getPostBySlug sample_mem ''hello'' = Some 0"
    by (simp add: mem_getPostBySlug_def sample_mem_def sample_post_def)
  have m0: "mem_getPostBySlug sample_mem ''none'' = None"
    by (simp add: mem_getPostBySlug_def sample_mem_def sample_post_def)
  have d: "db_getPostBySlug sample_db ''hello'' = Some sample_post"
    by (simp add: db_getPostBySlug_def first_row_def sample_db_def sample_post_def)
  have d0: "db_getPostBySlug sample_db ''none'' = None"
    by (simp add: db_getPostBySlug_def first_row_def sample_db_def sample_post_def)
  have v: "post_viewCount sample_post = Some 0"
    by (simp add: sample_post_def)
  have o: "post_objs sample_mem 0 = sample_post"
    by (simp add: sample_mem_def)
  show ?thesis
    using fetch_post_increments_view_count [of sample_mem "''hello''" 0 1 sample_db sample_post 0]
      fetch_post_increments_view_count [of sample_mem "''none''" 0 1 sample_db sample_post 0]
      fetch_post_increments_view_count [of sample_mem "''hello''" 0 3 sample_db sample_post 0]
      m m0 d d0 v o
    by (simp add: or_zero_def)
qed

text \<open>
  C10. With \<^verbatim>\<open>DatabaseStorage\<close>, the storage that the routes are given, the body of the
  answer of GET /api/posts/:slug for the slug of a post carries the view count \<open>n\<close> of the
  post as it was before the increment of this request: the row is read first and changed
  afterwards, so the value in the answer is one less than the stored value \<open>n + 1\<close> after
  the request.
\<close>

theorem fetch_post_response_view_count:
  "db_getPostBySlug dst slug = Some p \<and> post_viewCount p = Some n \<longrightarrow>
     snd (get_api_posts_slug DatabaseStorage dst slug) = (200, Json_post p)
     \<and> post_slug p = slug
     \<and> db_getPostBySlug (fst (get_api_posts_slug DatabaseStorage dst slug)) slug
         = Some (p\<lparr>post_viewCount := Some (n + 1)\<rparr>)"
proof
  assume h: "db_getPostBySlug dst slug = Some p \<and> post_viewCount p = Some n"
  then have f: "db_getPostBySlug dst slug = Some p" and v: "post_viewCount p = Some n"
    by simp_all
  have r: "get_api_posts_slug DatabaseStorage dst slug =
      (db_incrementViewCount dst slug, (200, Json_post p))"
    using f get_route_found [of DatabaseStorage dst slug p] by (simp add: DatabaseStorage_def)
  show "snd (get_api_posts_slug DatabaseStorage dst slug) = (200, Json_post p)
     \<and> post_slug p = slug
     \<and> db_getPostBySlug (fst (get_api_posts_slug DatabaseStorage dst slug)) slug
         = Some (p\<lparr>post_viewCount := Some (n + 1)\<rparr>)"
    using db_found_slug [OF f] db_increment_found [OF f] v by (simp add: r)
qed

theorem fetch_post_response_view_count_witness:
  "snd (get_api_posts_slug DatabaseStorage sample_db ''hello'') = (200, Json_post sample_post)
   \<and> post_viewCount sample_post = Some 0
   \<and> db_getPostBySlug (fst (get_api_posts_slug DatabaseStorage sample_db ''hello'')) ''hello''
       = Some (sample_post\<lparr>post_viewCount := Some 1\<rparr>)"
proof -
  have d: "db_getPostBySlug sample_db ''hello'' = Some sample_post"
    by (simp add: db_getPostBySlug_def first_row_def sample_db_def sample_post_def)
  have v: "post_viewCount sample_post = Some 0"
    by (simp add: sample_post_def)
  show ?thesis
    using fetch_post_response_view_count [of sample_db "''hello''" sample_post 0] d v
    by simp
qed

text \<open>\<^verbatim>\<open>MemStorage\<close>, which the routes are not given, differs here: what it hands to the
  route is the stored object, so the answer would carry the count after the increment.\<close>

lemma mem_fetch_response_is_stored_object:
  "mem_getPostBySlug sample_mem ''hello'' = Some 0
   \<and> post_viewCount (post_objs sample_mem 0) = Some 0
   \<and> snd (get_api_posts_slug MemStorage sample_mem ''hello'')
       = (200, Json_post (sample_post\<lparr>post_viewCount := Some 1\<rparr>))
   \<and> post_viewCount (post_objs (fst (get_api_posts_slug MemStorage sample_mem ''hello'')) 0) = Some 1"
  by (simp add: get_api_posts_slug_def MemStorage_def mem_getPostBySlug_def
        mem_incrementViewCount_def sample_mem_def sample_post_def or_zero_def Let_def)

section \<open>Posts: deletion\<close>

lemma mem_delete_found:
  "parseInt ident = Num i \<Longrightarrow> map_of (posts st) i = Some a \<Longrightarrow>
   delete_api_admin_posts_id MemStorage st ident =
     (st\<lparr>posts := AList.delete i (posts st),
         postsDir := deletePostFile (postsDir st) (post_slug (post_objs st a))\<rparr>,
      (200, Json_success))"
  by (simp add: delete_api_admin_posts_id_def MemStorage_def mem_deletePost_number_def
        mem_deletePost_def)

lemma mem_delete_absent:
  "parseInt ident = NaN \<or> (parseInt ident = Num i \<and> map_of (posts st) i = None) \<Longrightarrow>
   delete_api_admin_posts_id MemStorage st ident = (st, (404, Json_error ''Post not found''))"
  by (auto simp: delete_api_admin_posts_id_def MemStorage_def mem_deletePost_number_def
        mem_deletePost_def)

lemma db_delete_found:
  "db_id_param (parseInt ident) = Inr i \<Longrightarrow>
   filter (\<lambda>p. post_id p = i) (posts_table st) = p # rest \<Longrightarrow>
   delete_api_admin_posts_id DatabaseStorage st ident =
     (st\<lparr>db_postsDir := deletePostFile (db_postsDir st) (post_slug p),
         posts_table := filter (\<lambda>q. post_id q \<noteq> i) (posts_table st)\<rparr>,
      (200, Json_success))"
  by (simp add: delete_api_admin_posts_id_def DatabaseStorage_def db_deletePost_number_def
        db_deletePost_def)

lemma db_delete_absent:
  assumes "db_id_param (parseInt ident) = Inr i" and "i \<notin> post_id ` set (posts_table st)"
  shows "delete_api_admin_posts_id DatabaseStorage st ident
           = (st, (404, Json_error ''Post not found''))"
proof -
  have "filter (\<lambda>p. post_id p = i) (posts_table st) = []"
    using assms(2) by (auto simp: filter_empty_conv)
  then show ?thesis
    using assms(1)
    by (simp add: delete_api_admin_posts_id_def DatabaseStorage_def db_deletePost_number_def
          db_deletePost_def)
qed

lemma db_delete_refused:
  "db_id_param (parseInt ident) = Inl e \<Longrightarrow>
   delete_api_admin_posts_id DatabaseStorage st ident
     = (st, (500, Json_error ''Failed to delete post''))"
  by (simp add: delete_api_admin_posts_id_def DatabaseStorage_def db_deletePost_number_def)

text \<open>
  C6, as amended. DELETE /api/admin/posts/:id with \<^verbatim>\<open>DatabaseStorage\<close>, the storage that
  the routes are given, for an \<^verbatim>\<open>:id\<close> that \<^verbatim>\<open>parseInt\<close> reads as an integer of the id
  column (32 bits). When a post has the id: the answer is success, no post of the store has
  the id afterwards while the other posts stay, and the file \<^verbatim>\<open>${slug}.md\<close> of the post is
  not in the posts directory. When no post has the id: the answer is 404 and the state of
  the storage is unchanged. For an \<^verbatim>\<open>:id\<close> that is read as \<^verbatim>\<open>NaN\<close> or as an integer
  outside the column, the query raises and the answer is 500, the state unchanged. With
  \<^verbatim>\<open>MemStorage\<close> the same holds with 404 for every \<^verbatim>\<open>:id\<close> that is the id of no post.
\<close>

theorem delete_post_row_and_file:
  "(db_id_param n = Inr i) = (n = Num i \<and> - 2147483648 \<le> i \<and> i \<le> 2147483647)
   \<and> (db_id_param (parseInt ident) = Inr i
        \<and> filter (\<lambda>p. post_id p = i) (posts_table dst) = p # rest \<longrightarrow>
      snd (delete_api_admin_posts_id DatabaseStorage dst ident) = (200, Json_success)
      \<and> posts_table (fst (delete_api_admin_posts_id DatabaseStorage dst ident))
          = filter (\<lambda>q. post_id q \<noteq> i) (posts_table dst)
      \<and> i \<notin> post_id ` set (posts_table (fst (delete_api_admin_posts_id DatabaseStorage dst ident)))
      \<and> db_postsDir (fst (delete_api_admin_posts_id DatabaseStorage dst ident))
           (post_slug p @ ''.md'') = None)
   \<and> (db_id_param (parseInt ident) = Inr i \<and> i \<notin> post_id ` set (posts_table dst) \<longrightarrow>
      delete_api_admin_posts_id DatabaseStorage dst ident
        = (dst, (404, Json_error ''Post not found'')))
   \<and> (db_id_param (parseInt ident) = Inl e \<longrightarrow>
      delete_api_admin_posts_id DatabaseStorage dst ident
        = (dst, (500, Json_error ''Failed to delete post'')))
   \<and> (parseInt ident = Num i \<and> map_of (posts st) i = Some a \<longrightarrow>
      snd (delete_api_admin_posts_id MemStorage st ident) = (200, Json_success)
      \<and> map_of (posts (fst (delete_api_admin_posts_id MemStorage st ident))) i = None
      \<and> i \<notin> fst ` set (posts (fst (delete_api_admin_posts_id MemStorage st ident)))
      \<and> (j \<noteq> i \<longrightarrow>
           map_of (posts (fst (delete_api_admin_posts_id MemStorage st ident))) j = map_of (posts st) j)
      \<and> postsDir (fst (delete_api_admin_posts_id MemStorage st ident))
           (post_slug (post_objs st a) @ ''.md'') = None)
   \<and> (parseInt ident = NaN \<or> (parseInt ident = Num i \<and> map_of (posts st) i = None) \<longrightarrow>
      delete_api_admin_posts_id MemStorage st ident = (st, (404, Json_error ''Post not found'')))"
proof -
  have d1: "snd (delete_api_admin_posts_id DatabaseStorage dst ident) = (200, Json_success)
      \<and> posts_table (fst (delete_api_admin_posts_id DatabaseStorage dst ident))
          = filter (\<lambda>q. post_id q \<noteq> i) (posts_table dst)
      \<and> i \<notin> post_id ` set (posts_table (fst (delete_api_admin_posts_id DatabaseStorage dst ident)))
      \<and> db_postsDir (fst (delete_api_admin_posts_id DatabaseStorage dst ident))
           (post_slug p @ ''.md'') = None"
    if "db_id_param (parseInt ident) = Inr i"
      "filter (\<lambda>p. post_id p = i) (posts_table dst) = p # rest"
    by (auto simp: db_delete_found [OF that] deletePostFile_def)
  have d2: "delete_api_admin_posts_id DatabaseStorage dst ident
        = (dst, (404, Json_error ''Post not found''))"
    if "db_id_param (parseInt ident) = Inr i" "i \<notin> post_id ` set (posts_table dst)"
    using that by (rule db_delete_absent)
  have d3: "delete_api_admin_posts_id DatabaseStorage dst ident
        = (dst, (500, Json_error ''Failed to delete post''))"
    if "db_id_param (parseInt ident) = Inl e"
    using that by (rule db_delete_refused)
  have m1: "snd (delete_api_admin_posts_id MemStorage st ident) = (200, Json_success)
      \<and> map_of (posts (fst (delete_api_admin_posts_id MemStorage st ident))) i = None
      \<and> i \<notin> fst ` set (posts (fst (delete_api_admin_posts_id MemStorage st ident)))
      \<and> (j \<noteq> i \<longrightarrow>
           map_of (posts (fst (delete_api_admin_posts_id MemStorage st ident))) j = map_of (posts st) j)
      \<and> postsDir (fst (delete_api_admin_posts_id MemStorage st ident))
           (post_slug (post_objs st a) @ ''.md'') = None"
    if "parseInt ident = Num i" "map_of (posts st) i = Some a"
    using delete_notin_dom [of i "posts st"]
    by (simp add: mem_delete_found [OF that] deletePostFile_def delete_conv)
  have m2: "delete_api_admin_posts_id MemStorage st ident = (st, (404, Json_error ''Post not found''))"
    if "parseInt ident = NaN \<or> (parseInt ident = Num i \<and> map_of (posts st) i = None)"
    using that by (rule mem_delete_absent)
  show ?thesis
  proof (intro conjI)
    show "(db_id_param n = Inr i) = (n = Num i \<and> - 2147483648 \<le> i \<and> i \<le> 2147483647)"
      by (rule db_id_param_Inr)
    show "db_id_param (parseInt ident) = Inr i
        \<and> filter (\<lambda>p. post_id p = i) (posts_table dst) = p # rest \<longrightarrow>
      snd (delete_api_admin_posts_id DatabaseStorage dst ident) = (200, Json_success)
      \<and> posts_table (fst (delete_api_admin_posts_id DatabaseStorage dst ident))
          = filter (\<lambda>q. post_id q \<noteq> i) (posts_table dst)
      \<and> i \<notin> post_id ` set (posts_table (fst (delete_api_admin_posts_id DatabaseStorage dst ident)))
      \<and> db_postsDir (fst (delete_api_admin_posts_id DatabaseStorage dst ident))
           (post_slug p @ ''.md'') = None"
      by (rule impI) (erule conjE, rule d1, assumption+)
    show "db_id_param (parseInt ident) = Inr i \<and> i \<notin> post_id ` set (posts_table dst) \<longrightarrow>
      delete_api_admin_posts_id DatabaseStorage dst ident
        = (dst, (404, Json_error ''Post not found''))"
      by (rule impI) (erule conjE, rule d2, assumption+)
    show "db_id_param (parseInt ident) = Inl e \<longrightarrow>
      delete_api_admin_posts_id DatabaseStorage dst ident
        = (dst, (500, Json_error ''Failed to delete post''))"
      by (rule impI) (rule d3)
    show "parseInt ident = Num i \<and> map_of (posts st) i = Some a \<longrightarrow>
      snd (delete_api_admin_posts_id MemStorage st ident) = (200, Json_success)
      \<and> map_of (posts (fst (delete_api_admin_posts_id MemStorage st ident))) i = None
      \<and> i \<notin> fst ` set (posts (fst (delete_api_admin_posts_id MemStorage st ident)))
      \<and> (j \<noteq> i \<longrightarrow>
           map_of (posts (fst (delete_api_admin_posts_id MemStorage st ident))) j = map_of (posts st) j)
      \<and> postsDir (fst (delete_api_admin_posts_id MemStorage st ident))
           (post_slug (post_objs st a) @ ''.md'') = None"
      by (rule impI) (erule conjE, rule m1, assumption+)
    show "parseInt ident = NaN \<or> (parseInt ident = Num i \<and> map_of (posts st) i = None) \<longrightarrow>
      delete_api_admin_posts_id MemStorage st ident = (st, (404, Json_error ''Post not found''))"
      by (rule impI) (rule m2)
  qed
qed

theorem delete_post_row_and_file_witness:
  "delete_api_admin_posts_id DatabaseStorage sample_db ''7'' = (sample_db, (404, Json_error ''Post not found''))
   \<and> delete_api_admin_posts_id DatabaseStorage sample_db ''abc''
       = (sample_db, (500, Json_error ''Failed to delete post''))
   \<and> snd (delete_api_admin_posts_id DatabaseStorage sample_db ''1'') = (200, Json_success)
   \<and> posts_table (fst (delete_api_admin_posts_id DatabaseStorage sample_db ''1'')) = []
   \<and> db_postsDir (fst (delete_api_admin_posts_id DatabaseStorage sample_db ''1'')) ''hello.md'' = None
   \<and> delete_api_admin_posts_id MemStorage sample_mem ''7'' = (sample_mem, (404, Json_error ''Post not found''))
   \<and> snd (delete_api_admin_posts_id MemStorage sample_mem ''1'') = (200, Json_success)
   \<and> map_of (posts (fst (delete_api_admin_posts_id MemStorage sample_mem ''1''))) 1 = None
   \<and> postsDir (fst (delete_api_admin_posts_id MemStorage sample_mem ''1'')) ''hello.md'' = None"
proof -
  have q: "parseInt ''1'' = Num 1" "parseInt ''7'' = Num 7" "parseInt ''abc'' = NaN"
    "db_id_param (parseInt ''1'') = Inr 1" "db_id_param (parseInt ''7'') = Inr 7"
    "db_id_param (parseInt ''abc'') = Inl DatabaseError"
    by code_simp+
  have m: "map_of (posts sample_mem) 1 = Some 0" "map_of (posts sample_mem) 7 = None"
    by (simp_all add: sample_mem_def)
  have d: "filter (\<lambda>p. post_id p = 1) (posts_table sample_db) = sample_post # []"
    "7 \<notin> post_id ` set (posts_table sample_db)"
    by (simp_all add: sample_db_def sample_post_def)
  have s: "post_slug (post_objs sample_mem 0) = ''hello''" "post_slug sample_post = ''hello''"
    by (simp_all add: sample_mem_def sample_post_def)
  have f: "filter (\<lambda>q. post_id q \<noteq> 1) (posts_table sample_db) = []"
    by (simp add: sample_db_def sample_post_def)
  show ?thesis
    using delete_post_row_and_file
            [of "Num 1" 1 "''1''" sample_db sample_post "[]" DatabaseError sample_mem 0 2]
      delete_post_row_and_file
            [of "Num 7" 7 "''7''" sample_db sample_post "[]" DatabaseError sample_mem 0 2]
      delete_post_row_and_file
            [of NaN 7 "''abc''" sample_db sample_post "[]" DatabaseError sample_mem 0 2]
      q m d s f
    by simp
qed

theorem delete_post_row_and_file_counterexample:
  "parseInt ''abc'' = NaN
   \<and> delete_api_admin_posts_id DatabaseStorage sample_db ''abc''
       = (sample_db, (500, Json_error ''Failed to delete post''))
   \<and> parseInt ''99999999999'' = Num 99999999999
   \<and> filter (\<lambda>p. post_id p = 99999999999) (posts_table sample_db) = []
   \<and> delete_api_admin_posts_id DatabaseStorage sample_db ''99999999999''
       = (sample_db, (500, Json_error ''Failed to delete post''))"
proof -
  have p: "parseInt ''abc'' = NaN" "parseInt ''99999999999'' = Num 99999999999"
    by code_simp+
  have q: "db_id_param (parseInt ''abc'') = Inl DatabaseError"
    "db_id_param (parseInt ''99999999999'') = Inl DatabaseError"
    by code_simp+
  have f: "filter (\<lambda>p. post_id p = 99999999999) (posts_table sample_db) = []"
    by (simp add: sample_db_def sample_post_def)
  show ?thesis
    using p f by (simp add: db_delete_refused [OF q(1)] db_delete_refused [OF q(2)])
qed

section \<open>Contact form\<close>

lemma dropWhile_until:
  assumes "i < length s" and "s ! i = x" and "\<forall>c \<in> set (take i s). c \<noteq> x"
  shows "dropWhile (\<lambda>c. c \<noteq> x) s = x # drop (Suc i) s"
proof -
  have "s = take i s @ x # drop (Suc i) s"
    using assms(1,2) id_take_nth_drop [of i s] by simp
  then have "dropWhile (\<lambda>c. c \<noteq> x) s = dropWhile (\<lambda>c. c \<noteq> x) (take i s @ x # drop (Suc i) s)"
    by simp
  also have "\<dots> = dropWhile (\<lambda>c. c \<noteq> x) (x # drop (Suc i) s)"
    using assms(3) by (intro dropWhile_append2) auto
  finally show ?thesis by simp
qed

lemma emailRegex_test_needs:
  assumes "emailRegex_test e"
  shows "CHR ''@'' \<in> set e \<and> CHR ''.'' \<in> set (tl (dropWhile (\<lambda>c. c \<noteq> CHR ''@'') e))"
proof -
  from assms obtain i j where ij: "i < length e" "j < length e" "i < j"
    "e ! i = CHR ''@''" "e ! j = CHR ''.''" "emailPart (take i e)"
    by (auto simp: emailRegex_test_def list_ex_iff)
  have "\<forall>c \<in> set (take i e). c \<noteq> CHR ''@''"
    using ij(6) by (auto simp: emailPart_def list_all_iff)
  then have d: "dropWhile (\<lambda>c. c \<noteq> CHR ''@'') e = CHR ''@'' # drop (Suc i) e"
    using ij by (intro dropWhile_until) auto
  have "e ! j \<in> set (drop (Suc i) e)"
  proof -
    have "drop (Suc i) e ! (j - Suc i) = e ! j" using ij by simp
    moreover have "j - Suc i < length (drop (Suc i) e)" using ij by simp
    ultimately show ?thesis by (metis nth_mem)
  qed
  moreover have "CHR ''@'' \<in> set e"
    using ij(1,4) nth_mem [of i e] by simp
  ultimately show ?thesis
    using ij(5) d by simp
qed

text \<open>
  C7. POST /api/contact with a body whose e-mail is absent, has no \<^verbatim>\<open>@\<close>, or has no
  \<^verbatim>\<open>.\<close> after its first \<^verbatim>\<open>@\<close>: the answer is 400 with an error message and the state
  of the storage, whichever storage it is, is the state before the request.
\<close>
theorem contact_malformed_email_rejected:
  "(cf_email req_body = None
    \<or> (\<exists>e. cf_email req_body = Some e
          \<and> (CHR ''@'' \<notin> set e \<or> CHR ''.'' \<notin> set (tl (dropWhile (\<lambda>c. c \<noteq> CHR ''@'') e)))))
   \<longrightarrow> fst (post_api_contact storage st now req_body) = st
       \<and> fst (snd (post_api_contact storage st now req_body)) = 400
       \<and> (\<exists>msg. snd (snd (post_api_contact storage st now req_body)) = Json_error msg)"
proof (cases "cf_email req_body")
  case None
  then show ?thesis
    by (simp add: post_api_contact_def split: option.splits)
next
  case (Some e)
  show ?thesis
  proof (cases "emailRegex_test e")
    case True
    then show ?thesis using Some emailRegex_test_needs [of e] by simp
  next
    case False
    then show ?thesis using Some
      by (simp add: post_api_contact_def split: option.splits)
  qed
qed

theorem contact_malformed_email_rejected_witness:
  "post_api_contact MemStorage sample_mem 5 sample_form
     = (sample_mem, (400, Json_error ''Invalid email format''))
   \<and> post_api_contact DatabaseStorage sample_db 5 sample_form
     = (sample_db, (400, Json_error ''Invalid email format''))
   \<and> post_api_contact DatabaseStorage sample_db 5 (sample_form\<lparr>cf_email := Some ''bob.example.org''\<rparr>)
     = (sample_db, (400, Json_error ''Invalid email format''))
   \<and> post_api_contact DatabaseStorage sample_db 5 (sample_form\<lparr>cf_email := None\<rparr>)
     = (sample_db, (400, Json_error ''All fields are required''))"
proof -
  have 1: "CHR ''.'' \<notin> set (tl (dropWhile (\<lambda>c. c \<noteq> CHR ''@'') ''bob@localhost''))"
    by simp
  have 2: "CHR ''@'' \<notin> set ''bob.example.org''"
    by simp
  have e: "cf_email sample_form = Some ''bob@localhost''"
    by (simp add: sample_form_def)
  have n: "\<not> emailRegex_test ''bob@localhost''" "\<not> emailRegex_test ''bob.example.org''"
    using emailRegex_test_needs [of "''bob@localhost''"] emailRegex_test_needs [of "''bob.example.org''"]
    by auto
  show ?thesis
    using contact_malformed_email_rejected [of sample_form MemStorage sample_mem 5] 1 2 e n
    by (simp add: post_api_contact_def sample_form_def)
qed

text \<open>The route is not one that rejects everything: a well-formed message is stored, trimmed
  and with its address in lower case.\<close>

lemma contact_well_formed_accepted:
  "post_api_contact DatabaseStorage sample_db 5 (sample_form\<lparr>cf_email := Some ''Bob@Example.org''\<rparr>)
     = (sample_db\<lparr>contacts_table := [sample_contact,
            \<lparr>contact_id = 2, contact_name = ''Bob'', contact_email = ''bob@example.org'',
             contact_subject = ''Hi'', contact_message = ''Hello'', contact_status = ''unread'',
             contact_createdAt = 5\<rparr>], contacts_id_seq := 3\<rparr>,
        (200, Json_sent ''Message sent successfully'' 2))"
proof -
  have t: "emailRegex_test ''Bob@Example.org''"
    by code_simp
  have l: "toLowerCase (trim ''Bob@Example.org'') = ''bob@example.org''"
    by code_simp
  have r: "trim ''Bob'' = ''Bob''" "trim ''Hi'' = ''Hi''" "trim ''Hello'' = ''Hello''"
    by code_simp+
  show ?thesis
    using t l r
    by (simp add: post_api_contact_def sample_form_def DatabaseStorage_def db_createContact_def
          sample_db_def Let_def)
qed


section \<open>The frontmatter parsers on files given by their lines\<close>
















lemma split_first_None:
  "split_first pat s = None \<Longrightarrow> s \<noteq> a @ pat @ b"
proof (induction s arbitrary: a)
  case Nil
  then show ?case by (auto split: if_splits)
next
  case (Cons c cs)
  from Cons.prems have np: "\<not> prefix pat (c # cs)" and n: "split_first pat cs = None"
    by (auto split: if_splits)
  show ?case
  proof (cases a)
    case Nil
    then show ?thesis using np by (auto simp: prefix_def)
  next
    case (Cons d a')
    then show ?thesis using Cons.IH [OF n, of a'] by auto
  qed
qed









































text \<open>A header line with a known key and a blank value: the \<^verbatim>\<open>\s*\<close> of
  \<^verbatim>\<open>DatabaseStorage\<close> runs over the line end, and the key takes the next line.\<close>

lemma db_blank_value_runs_on:
  "pf_title (db_parseMarkdownFile (md_file [''title:'', ''status: draft''] [''Body''])) = ''status: draft''
   \<and> pf_title (mem_parseMarkdownFile (md_file [''title:'', ''status: draft''] [''Body''])) = []"
  by code_simp




end
